theory Spec2Isabelle
  imports Complex_Main "HOL-Library.Sublist" "HOL-Library.AList"
begin

section \<open>Strings of the JavaScript runtime\<close>

text \<open>
  A JavaScript string is a sequence of UTF-16 code units. The model covers the texts of
  the application, which are Latin-1: one \<^typ>\<open>char\<close> stands for one code unit below 256, so
  \<open>length\<close>, \<open>take\<close> and the substring test count what the source counts.
  \<open>String.prototype.includes\<close> is the contiguous-substring test.
\<close>

fun str_includes :: "string \<Rightarrow> string \<Rightarrow> bool" where
  "str_includes [] p = (p = [])"
| "str_includes (c # cs) p = (prefix p (c # cs) \<or> str_includes cs p)"

text \<open>
  \<open>toUpperCase\<close> on Latin-1: the letters a-z and the accented letters U+00E0..U+00FE
  (U+00F7, the division sign, apart) move down by 32, the sharp s becomes SS. The two
  Latin-1 letters whose capital lies outside Latin-1 (U+00B5, U+00FF) are kept; no
  pattern of the tables below holds either form of them.
\<close>

definition upper_char :: "char \<Rightarrow> string" where
  "upper_char c =
     (let n = (of_char c :: int) in
      if 97 \<le> n \<and> n \<le> 122 then [char_of (n - 32)]
      else if n = 223 then ''SS''
      else if 224 \<le> n \<and> n \<le> 254 \<and> n \<noteq> 247 then [char_of (n - 32)]
      else [c])"

definition toUpperCase :: "string \<Rightarrow> string" where
  "toUpperCase s = concat (map upper_char s)"

text \<open>White space of \<open>trim\<close>, of the regular expression class \<open>\s\<close> and of \<open>parseInt\<close>,
  within Latin-1: tab, line feed, vertical tab, form feed, carriage return, space, no-break
  space.\<close>

definition is_space :: "char \<Rightarrow> bool" where
  "is_space c = (let n = (of_char c :: int) in (9 \<le> n \<and> n \<le> 13) \<or> n = 32 \<or> n = 160)"

definition trim :: "string \<Rightarrow> string" where
  "trim s = rev (dropWhile is_space (rev (dropWhile is_space s)))"

definition is_digit :: "char \<Rightarrow> bool" where
  "is_digit c = (let n = (of_char c :: int) in 48 \<le> n \<and> n \<le> 57)"

definition digit_val :: "char \<Rightarrow> int" where
  "digit_val c = of_char c - 48"

text \<open>The value of a run of decimal digits, most significant first.\<close>

definition digits_val :: "string \<Rightarrow> int" where
  "digits_val ds = foldl (\<lambda>acc c. 10 * acc + digit_val c) 0 ds"

section \<open>Failure cause: the ordered rule table of \<open>determineFailure\<close>\<close>

text \<open>
  The source is a chain of \<open>if (d.includes(p1) || d.includes(p2) ...) return label;\<close>
  statements. Each statement is one entry of the table, in the order of the source: the
  patterns of its disjunction and its label. \<open>first_match\<close> is the chain itself: the first
  entry one of whose patterns occurs in the text gives the label, no entry gives \<open>null\<close>.
\<close>

definition failure_rules :: "(string list \<times> string) list" where
  "failure_rules =
   [([''TWIN''], ''twin''),
    ([''TELESC''], ''Telescopy''),
    ([''NOISE'', ''DAMAGE'', ''BRUIT'', ''ENDOMMA'', ''VIBRE''], ''Mech fail''),
    ([''AC FAULT''], ''A/C''),
    ([''SI'' @ [CHR 0xC8] @ ''GE'', ''SEAT''], ''operator seat''),
    ([''CRANE OF''], ''Crane off''),
    ([''DRIVE OF'', ''CONTROL OF'', ''CONTROLE OF'', ''ALM''], ''Drive Off''),
    ([''POWER''], ''Power cut off''),
    ([''ROOF'', ''TTDS'', ''SPREADER READY''], ''spreader ready intrlck''),
    ([''DOMMAGE''], ''Incident_Dommage''),
    ([''HOIST BRAKE'', ''HOIST SERVICE BRAKE''], ''Hoist service brake''),
    ([''HOIST EMERG''], ''Hoist Emergency brake''),
    ([''HDB'', ''HEADBLOCK''], ''Headblock''),
    ([''FESTOON''], ''Festoon''),
    ([''HOIST SLOW''], ''Hoist slowdown''),
    ([''AFFICHEUR''], ''Display''),
    ([''GANTRY DRIVE''], ''Gantry drive''),
    ([''GANTRY POSITION''], ''Gantry position''),
    ([''GANTRY WHEEL''], ''Gantry wheel brake''),
    ([''GANTRY BRAKE''], ''Gantry brake''),
    ([''GANTRY ENCODER''], ''Gantry encoder''),
    ([''GANTRY MOTOR''], ''Gantry motor''),
    ([''TROLLEY DRIVE''], ''Trolley drive''),
    ([''TROLLEY POSITION''], ''Trolley position''),
    ([''TROLLEY BRAKE''], ''Trolley brake''),
    ([''TROLLEY GATE''], ''Trolley gate''),
    ([''TROLLEY ROPE''], ''Trolley rope tension''),
    ([''HOIST DRIVE''], ''hoist drive''),
    ([''HOIST POSITION''], ''hoist position''),
    ([''HOIST WIRE''], ''hoist wire rope''),
    ([''HOIST BRAKE''], ''Hoist brake''),
    ([''HOIST ENCODER''], ''Hoist encoder''),
    ([''HOIST MOTOR''], ''Hoist motor''),
    ([''GCR''], ''GCR''),
    ([''SCR'', ''SPREADER CABLE REEL''], ''SCR''),
    ([''BAD STACK'', ''COINC'', ''SPREADER BLOQU'' @ [CHR 0xC9],
      ''SPREADER ACCROCH'' @ [CHR 0xC9], ''STUCK''], ''Stuck''),
    ([''BLINK FAULT'', ''COMMUNICA'', ''COMUNICA'', ''LIGHT BLINK''], ''Communication''),
    ([''BOOM ISSUE'', ''BOOM FAULT'', ''BOOM INV''], ''Boom Drive''),
    ([''BOOM LEVEL'', ''BOOM DOWN'', ''BOOM UP'', ''NO BOOM''], ''Boom position''),
    ([''TLS''], ''TLS fault''),
    ([''CHANGE'', ''CHANGEMENT''], ''spreader change''),
    ([''JOYSTICK'', ''JOYSTI''], ''Joystick fault''),
    ([''CONNECTOR'', ''PLUG''], ''spreader plug''),
    ([''FUITE D'' @ [CHR 0x27] @ ''HUILE'', ''OIL LEAK''], ''oil leakage''),
    ([''D'' @ [CHR 0xC9] @ ''V'' @ [CHR 0xC9] @ ''RROU'', ''V'' @ [CHR 0xC9] @ ''RROU'',
      ''LOCK FAULT'', ''UNLOCK'', ''UNLOPK'', ''LOCKING FAULT''], ''Lock/unlock''),
    ([''FLIPPER''], ''Flipper''),
    ([''TELESCOP'', ''TELECO'', ''TELSCO''], ''Telescopic''),
    ([''LIGHTS'', ''LIGHT'', ''LIGHT FAULT'', ''LIGHT ISSUE'', ''LIGHT OFF'', ''LAMPE'',
      ''FLOODLIGHT''], ''Light''),
    ([''POMPE SPREADER'', ''SPREADER PUMP'', ''PUMP''], ''spreader pump'')]"

definition rule_matches :: "string \<Rightarrow> string list \<times> string \<Rightarrow> bool" where
  "rule_matches d r = list_ex (str_includes d) (fst r)"

fun first_match :: "string \<Rightarrow> (string list \<times> string) list \<Rightarrow> string option" where
  "first_match d [] = None"
| "first_match d (r # rs) = (if rule_matches d r then Some (snd r) else first_match d rs)"

text \<open>
  \<open>determineFailure(cause)\<close>: a falsy argument gives \<open>null\<close>; otherwise the text is trimmed
  and upper-cased and run through the chain. Every caller passes a string (the template
  literal of \<open>processData\<close>), for which \<open>String(cause)\<close> is the string itself and the only
  falsy value is the empty string.
\<close>

definition determineFailure :: "string \<Rightarrow> string option" where
  "determineFailure cause =
     (if cause = [] then None
      else first_match (toUpperCase (trim cause)) failure_rules)"

section \<open>Numbers and their decimal text\<close>

text \<open>
  \<open>parseInt(s, 10)\<close>: leading white space is skipped, one sign is read, then the longest
  run of decimal digits; no digit gives \<open>NaN\<close>, here \<open>None\<close>.
\<close>

definition parseInt10 :: "string \<Rightarrow> int option" where
  "parseInt10 s =
     (let t = dropWhile is_space s;
          neg = (t \<noteq> [] \<and> hd t = CHR ''-'');
          u = (if t \<noteq> [] \<and> (hd t = CHR ''-'' \<or> hd t = CHR ''+'') then tl t else t);
          ds = takeWhile is_digit u
      in if ds = [] then None
         else Some (if neg then - digits_val ds else digits_val ds))"

text \<open>The decimal text of a whole number, as \<open>Number.prototype.toString\<close> and template
  literals give it; \<open>show_nat\<close> is the text of a number that is not negative.\<close>

function show_nat :: "int \<Rightarrow> string" where
  "show_nat n =
     (if n < 10 then [char_of (48 + n)]
      else show_nat (n div 10) @ [char_of (48 + n mod 10)])"
  by pat_completeness auto
termination
  by (relation "measure nat") auto

declare show_nat.simps [simp del]

definition show_int :: "int \<Rightarrow> string" where
  "show_int i = (if i < 0 then CHR ''-'' # show_nat (- i) else show_nat i)"

text \<open>A number that may be \<open>NaN\<close> (\<open>None\<close>), as text.\<close>

definition num_str :: "int option \<Rightarrow> string" where
  "num_str x = (case x of None \<Rightarrow> ''NaN'' | Some i \<Rightarrow> show_int i)"

text \<open>\<open>s.padStart(2, '0')\<close>.\<close>

definition padStart2 :: "string \<Rightarrow> string" where
  "padStart2 s = replicate (2 - length s) CHR ''0'' @ s"

text \<open>\<open>s.split(re)\<close> for a regular expression that matches one character of a class:
  every such character ends a part, so two in a row give an empty part.\<close>

fun split_on :: "(char \<Rightarrow> bool) \<Rightarrow> string \<Rightarrow> string list" where
  "split_on P [] = [[]]"
| "split_on P (c # cs) =
     (if P c then [] # split_on P cs
      else (case split_on P cs of [] \<Rightarrow> [[c]] | w # ws \<Rightarrow> (c # w) # ws))"

section \<open>The calendar of the \<open>Date\<close> object\<close>

text \<open>
  Time values are milliseconds since 1970-01-01 UTC, days are whole days since then
  (ECMAScript: \<open>Day(t) = floor(t / msPerDay)\<close>). The functions below are the ones the
  language standard defines: \<open>DayFromYear\<close>, \<open>InLeapYear\<close>, \<open>MakeDay\<close>, \<open>YearFromTime\<close>,
  \<open>MonthFromTime\<close>, \<open>DateFromTime\<close>, \<open>WeekDay\<close> and \<open>TimeClip\<close>. The local time zone is
  taken to be UTC with no daylight saving, so local and UTC fields of a date agree; the
  constructor and the getters of a host in any other zone follow in the section on the
  time zone of the host.
\<close>

definition msPerDay :: int where
  "msPerDay = 24 * 60 * 60 * 1000"

definition DayFromYear :: "int \<Rightarrow> int" where
  "DayFromYear y =
     365 * (y - 1970) + (y - 1969) div 4 - (y - 1901) div 100 + (y - 1601) div 400"

definition InLeapYear :: "int \<Rightarrow> bool" where
  "InLeapYear y = (y mod 4 = 0 \<and> (y mod 100 \<noteq> 0 \<or> y mod 400 = 0))"

text \<open>The number of days of the year before month \<open>m\<close> (0 = January).\<close>

definition DaysBeforeMonth :: "bool \<Rightarrow> int \<Rightarrow> int" where
  "DaysBeforeMonth leap m =
     (let l = (if leap then 1 else 0) in
      if m = 0 then 0 else if m = 1 then 31 else if m = 2 then 59 + l
      else if m = 3 then 90 + l else if m = 4 then 120 + l else if m = 5 then 151 + l
      else if m = 6 then 181 + l else if m = 7 then 212 + l else if m = 8 then 243 + l
      else if m = 9 then 273 + l else if m = 10 then 304 + l else 334 + l)"

text \<open>\<open>MakeDay(year, month, date)\<close>: months outside 0..11 carry into the year, the day of
  the month is any whole number.\<close>

definition MakeDay :: "int \<Rightarrow> int \<Rightarrow> int \<Rightarrow> int" where
  "MakeDay year month date =
     (let ym = year + month div 12; mn = month mod 12
      in DayFromYear ym + DaysBeforeMonth (InLeapYear ym) mn + date - 1)"

text \<open>\<open>YearFromTime\<close>, computed by the cycles of 400, 100, 4 and 1 years counted from
  0001-01-01 (day \<open>-719162\<close>).\<close>

definition YearFromDay :: "int \<Rightarrow> int" where
  "YearFromDay d =
     (let n = d + 719162;
          q400 = n div 146097; r400 = n mod 146097;
          q100 = min 3 (r400 div 36524); r100 = r400 - q100 * 36524;
          q4 = r100 div 1461; r4 = r100 mod 1461;
          q1 = min 3 (r4 div 365)
      in 400 * q400 + 100 * q100 + 4 * q4 + q1 + 1)"

definition DayWithinYear :: "int \<Rightarrow> int" where
  "DayWithinYear d = d - DayFromYear (YearFromDay d)"

definition MonthFromDay :: "int \<Rightarrow> int" where
  "MonthFromDay d =
     (let w = DayWithinYear d; l = (if InLeapYear (YearFromDay d) then 1 else 0) in
      if w < 31 then 0 else if w < 59 + l then 1 else if w < 90 + l then 2
      else if w < 120 + l then 3 else if w < 151 + l then 4 else if w < 181 + l then 5
      else if w < 212 + l then 6 else if w < 243 + l then 7 else if w < 273 + l then 8
      else if w < 304 + l then 9 else if w < 334 + l then 10 else 11)"

definition DateFromDay :: "int \<Rightarrow> int" where
  "DateFromDay d =
     DayWithinYear d - DaysBeforeMonth (InLeapYear (YearFromDay d)) (MonthFromDay d) + 1"


text \<open>\<open>WeekDay\<close>: 0 is Sunday; 1970-01-01 was a Thursday.\<close>

definition WeekDay :: "int \<Rightarrow> int" where
  "WeekDay d = (d + 4) mod 7"

text \<open>A \<open>Date\<close> object holds a time value or \<open>NaN\<close> (an invalid date).\<close>

datatype jsdate = InvalidDate | TimeValue int

definition TimeClip :: "int \<Rightarrow> jsdate" where
  "TimeClip t = (if \<bar>t\<bar> \<le> 8640000000000000 then TimeValue t else InvalidDate)"

definition getTime :: "jsdate \<Rightarrow> int option" where
  "getTime d = (case d of InvalidDate \<Rightarrow> None | TimeValue t \<Rightarrow> Some t)"

text \<open>The day number of a date; the field getters give \<open>NaN\<close> (\<open>None\<close>) on an invalid
  date. With the zone at UTC, \<open>getFullYear\<close> is \<open>getUTCFullYear\<close>, and so on.\<close>

definition day_of :: "jsdate \<Rightarrow> int option" where
  "day_of d = map_option (\<lambda>t. t div msPerDay) (getTime d)"

definition getFullYear :: "jsdate \<Rightarrow> int option" where
  "getFullYear d = map_option YearFromDay (day_of d)"

definition getMonth :: "jsdate \<Rightarrow> int option" where
  "getMonth d = map_option MonthFromDay (day_of d)"

definition getDate :: "jsdate \<Rightarrow> int option" where
  "getDate d = map_option DateFromDay (day_of d)"

definition getDay :: "jsdate \<Rightarrow> int option" where
  "getDay d = map_option WeekDay (day_of d)"

text \<open>\<open>new Date(year, month, day)\<close> and \<open>Date.UTC(year, month, day)\<close>: a year from 0 to 99
  is read as 1900 + year; the result is clipped to the range of time values.\<close>

definition full_year :: "int \<Rightarrow> int" where
  "full_year y = (if 0 \<le> y \<and> y \<le> 99 then 1900 + y else y)"

definition Date_UTC :: "int \<Rightarrow> int \<Rightarrow> int \<Rightarrow> jsdate" where
  "Date_UTC year month day = TimeClip (MakeDay (full_year year) month day * msPerDay)"

definition new_Date_ymd :: "int \<Rightarrow> int \<Rightarrow> int \<Rightarrow> jsdate" where
  "new_Date_ymd year month day = Date_UTC year month day"

text \<open>\<open>d.setUTCDate(n)\<close> and \<open>d.setDate(n)\<close>: the day of the month is replaced, the time
  within the day is kept.\<close>

definition setDate :: "jsdate \<Rightarrow> int \<Rightarrow> jsdate" where
  "setDate d n =
     (case d of InvalidDate \<Rightarrow> InvalidDate
      | TimeValue t \<Rightarrow>
          (let dy = t div msPerDay
           in TimeClip (MakeDay (YearFromDay dy) (MonthFromDay dy) n * msPerDay
                        + t mod msPerDay)))"

section \<open>Cell values and objects\<close>

text \<open>
  A cell of a sheet, and so a field of a row or of a work order, is \<open>undefined\<close> (the
  field is absent), \<open>null\<close>, a boolean, a number or a string. Numbers are whole: a serial
  date counts whole days, and whole numbers of this size are exact in the source's
  floating point. An object is the list of its own fields in insertion order.
\<close>

datatype jsval = JUndefined | JNull | JBool bool | JNum int | JStr string

type_synonym obj = "(string \<times> jsval) list"

definition field :: "obj \<Rightarrow> string \<Rightarrow> jsval" where
  "field ob k = (case map_of ob k of None \<Rightarrow> JUndefined | Some v \<Rightarrow> v)"

definition truthy :: "jsval \<Rightarrow> bool" where
  "truthy v =
     (case v of JUndefined \<Rightarrow> False | JNull \<Rightarrow> False | JBool b \<Rightarrow> b
      | JNum n \<Rightarrow> n \<noteq> 0 | JStr s \<Rightarrow> s \<noteq> [])"

text \<open>\<open>a || b\<close>.\<close>

definition js_or :: "jsval \<Rightarrow> jsval \<Rightarrow> jsval" where
  "js_or a b = (if truthy a then a else b)"

text \<open>\<open>String(v)\<close>, also what a template literal inserts.\<close>

definition to_string :: "jsval \<Rightarrow> string" where
  "to_string v =
     (case v of JUndefined \<Rightarrow> ''undefined'' | JNull \<Rightarrow> ''null''
      | JBool b \<Rightarrow> (if b then ''true'' else ''false'')
      | JNum n \<Rightarrow> show_int n | JStr s \<Rightarrow> s)"

text \<open>
  \<open>new Date(v)\<close> for one argument. For a string the result is what the engine's date
  parser gives, which the language standard leaves open beyond its own format: the parser
  is the parameter \<open>np\<close> of every function that reaches it.
\<close>

definition new_Date_of :: "(string \<Rightarrow> jsdate) \<Rightarrow> jsval \<Rightarrow> jsdate" where
  "new_Date_of np v =
     (case v of JUndefined \<Rightarrow> InvalidDate | JNull \<Rightarrow> TimeClip 0
      | JBool b \<Rightarrow> TimeClip (if b then 1 else 0)
      | JNum n \<Rightarrow> TimeClip n | JStr s \<Rightarrow> np s)"

section \<open>Date normalisation: \<open>parseFrenchDate\<close>, \<open>formatToFrenchDate\<close>, week buckets\<close>

text \<open>\<open>new Date(1899, 11, 30)\<close>, the epoch of the serial dates.\<close>

definition excelEpoch :: jsdate where
  "excelEpoch = new_Date_ymd 1899 11 30"

text \<open>The regular expression \<open>/^\d{4}-\d{2}-\d{2}/\<close>.\<close>

definition iso_prefix :: "string \<Rightarrow> bool" where
  "iso_prefix s =
     (10 \<le> length s \<and> list_all is_digit (take 4 s) \<and> s ! 4 = CHR ''-''
      \<and> list_all is_digit (take 2 (drop 5 s)) \<and> s ! 7 = CHR ''-''
      \<and> list_all is_digit (take 2 (drop 8 s)))"

text \<open>The separators of the regular expression \<open>/[\/\-\s]/\<close>.\<close>

definition is_sep :: "char \<Rightarrow> bool" where
  "is_sep c = (c = CHR ''/'' \<or> c = CHR ''-'' \<or> is_space c)"

text \<open>The day-month-year branch: the first three parts are read with \<open>parseInt\<close>; the
  date is invalid (so the branch is left) when there are fewer parts, one is \<open>NaN\<close>, or
  the date is out of range.\<close>

definition french_date :: "string list \<Rightarrow> jsdate" where
  "french_date parts =
     (if 3 \<le> length parts then
        (case (parseInt10 (parts ! 0), parseInt10 (parts ! 1), parseInt10 (parts ! 2)) of
           (Some day, Some m, Some year) \<Rightarrow> new_Date_ymd year (m - 1) day
         | _ \<Rightarrow> InvalidDate)
      else InvalidDate)"

text \<open>
  \<open>parseFrenchDate(dateStr)\<close> of the dashboard script: \<open>None\<close> is \<open>null\<close>. Nothing in the
  body throws, so its \<open>catch\<close> is never entered. A number gives a date in any case, an
  invalid one when it is out of range.
\<close>

definition parseFrenchDate :: "(string \<Rightarrow> jsdate) \<Rightarrow> jsval \<Rightarrow> jsdate option" where
  "parseFrenchDate np dateStr =
     (if \<not> truthy dateStr then None
      else case dateStr of
        JNum n \<Rightarrow>
          (case getTime excelEpoch of
             None \<Rightarrow> Some InvalidDate
           | Some e \<Rightarrow> Some (TimeClip (e + n * msPerDay)))
      | _ \<Rightarrow>
          (let iso = (case dateStr of
                        JStr s \<Rightarrow> if iso_prefix s then np s else InvalidDate
                      | _ \<Rightarrow> InvalidDate)
           in if iso \<noteq> InvalidDate then Some iso
              else
                (let french = french_date (split_on is_sep (to_string dateStr))
                 in if french \<noteq> InvalidDate then Some french
                    else
                      (let date = new_Date_of np dateStr
                       in if date = InvalidDate then None else Some date))))"

text \<open>The copy of the second script has no ISO branch.\<close>

definition parseFrenchDate_p2 :: "(string \<Rightarrow> jsdate) \<Rightarrow> jsval \<Rightarrow> jsdate option" where
  "parseFrenchDate_p2 np dateStr =
     (if \<not> truthy dateStr then None
      else case dateStr of
        JNum n \<Rightarrow>
          (case getTime excelEpoch of
             None \<Rightarrow> Some InvalidDate
           | Some e \<Rightarrow> Some (TimeClip (e + n * msPerDay)))
      | _ \<Rightarrow>
          (let french = french_date (split_on is_sep (to_string dateStr))
           in if french \<noteq> InvalidDate then Some french
              else
                (let date = new_Date_of np dateStr
                 in if date = InvalidDate then None else Some date)))"

text \<open>\<open>formatToFrenchDate(date)\<close>: \<open>null\<close> for \<open>null\<close> and for an invalid date, else
  \<open>DD/MM/YYYY\<close> with day and month padded to two characters.\<close>

definition formatToFrenchDate :: "jsdate option \<Rightarrow> string option" where
  "formatToFrenchDate date =
     (case date of
        None \<Rightarrow> None
      | Some InvalidDate \<Rightarrow> None
      | Some d \<Rightarrow>
          Some (padStart2 (num_str (getDate d)) @ ''/''
                @ padStart2 (num_str (map_option (\<lambda>m. m + 1) (getMonth d))) @ ''/''
                @ num_str (getFullYear d)))"

text \<open>
  \<open>getWeekNumber(date)\<close>: the date is rebuilt at UTC midnight, moved to the Thursday of
  its week (\<open>getUTCDay() || 7\<close> makes Sunday day 7), and the weeks are counted from the
  first of January of the Thursday's year.
\<close>

definition getWeekNumber :: "jsdate \<Rightarrow> int option" where
  "getWeekNumber date =
     (case (getFullYear date, getMonth date, getDate date) of
        (Some y, Some m, Some dd) \<Rightarrow>
          (let d = Date_UTC y m dd in
           case (getDate d, getDay d) of
             (Some ud, Some wd) \<Rightarrow>
               (let d' = setDate d (ud + 4 - (if wd = 0 then 7 else wd)) in
                case getFullYear d' of
                  Some y' \<Rightarrow>
                    (case (getTime d', getTime (Date_UTC y' 0 1)) of
                       (Some t, Some yearStart) \<Rightarrow>
                         Some \<lceil>((of_int (t - yearStart) :: rat) / 86400000 + 1) / 7\<rceil>
                     | _ \<Rightarrow> None)
                | None \<Rightarrow> None)
           | _ \<Rightarrow> None)
      | _ \<Rightarrow> None)"

text \<open>\<open>formatDateForChart(dateStr)\<close> of the dashboard script: the year of the label is
  \<open>date.getFullYear()\<close>, the calendar year of the date itself.\<close>

definition formatDateForChart :: "(string \<Rightarrow> jsdate) \<Rightarrow> jsval \<Rightarrow> string" where
  "formatDateForChart np dateStr =
     (case parseFrenchDate np dateStr of
        None \<Rightarrow> ''Unknown''
      | Some date \<Rightarrow>
          num_str (getFullYear date) @ ''-W'' @ padStart2 (num_str (getWeekNumber date)))"

text \<open>The copy of the second script puts the month between year and week, and gives
  the empty string for \<open>null\<close>.\<close>

definition formatDateForChart_p2 :: "(string \<Rightarrow> jsdate) \<Rightarrow> jsval \<Rightarrow> string" where
  "formatDateForChart_p2 np dateStr =
     (case parseFrenchDate_p2 np dateStr of
        None \<Rightarrow> []
      | Some date \<Rightarrow>
          num_str (getFullYear date) @ ''-''
          @ padStart2 (num_str (map_option (\<lambda>m. m + 1) (getMonth date)))
          @ ''-W'' @ padStart2 (num_str (getWeekNumber date)))"

section \<open>The time zone of the host\<close>

text \<open>
  \<open>new Date(year, month, day)\<close> and the getters \<open>getDate\<close>, \<open>getMonth\<close> and \<open>getFullYear\<close>
  work in the local time of the host. The language standard describes the zone of the host
  by its offset from UTC in milliseconds, \<open>LocalTZA(t, isUTC)\<close>: the offset in effect at the
  UTC time value \<open>t\<close>, and the offset in effect at the local time value \<open>t\<close>. A zone is
  these two functions. \<open>LocalTime(t)\<close> and \<open>UTC(t)\<close> are the conversions of the standard.
\<close>

record zone =
  utc_offset :: "int \<Rightarrow> int"
  local_offset :: "int \<Rightarrow> int"

definition LocalTime :: "zone \<Rightarrow> int \<Rightarrow> int" where
  "LocalTime z t = t + utc_offset z t"

definition UTC_of :: "zone \<Rightarrow> int \<Rightarrow> int" where
  "UTC_of z t = t - local_offset z t"

text \<open>\<open>new Date(year, month, day)\<close> on a host in zone \<open>z\<close>: local midnight of the day,
  converted to UTC and clipped.\<close>

definition new_Date_local :: "zone \<Rightarrow> int \<Rightarrow> int \<Rightarrow> int \<Rightarrow> jsdate" where
  "new_Date_local z year month day =
     TimeClip (UTC_of z (MakeDay (full_year year) month day * msPerDay))"

text \<open>The local day number of a date, and the getters that read it.\<close>

definition local_day_of :: "zone \<Rightarrow> jsdate \<Rightarrow> int option" where
  "local_day_of z d = map_option (\<lambda>t. LocalTime z t div msPerDay) (getTime d)"

definition getFullYear_local :: "zone \<Rightarrow> jsdate \<Rightarrow> int option" where
  "getFullYear_local z d = map_option YearFromDay (local_day_of z d)"

definition getMonth_local :: "zone \<Rightarrow> jsdate \<Rightarrow> int option" where
  "getMonth_local z d = map_option MonthFromDay (local_day_of z d)"

definition getDate_local :: "zone \<Rightarrow> jsdate \<Rightarrow> int option" where
  "getDate_local z d = map_option DateFromDay (local_day_of z d)"

text \<open>\<open>new Date(1899, 11, 30)\<close> on a host in zone \<open>z\<close>.\<close>

definition excelEpoch_local :: "zone \<Rightarrow> jsdate" where
  "excelEpoch_local z = new_Date_local z 1899 11 30"

definition french_date_local :: "zone \<Rightarrow> string list \<Rightarrow> jsdate" where
  "french_date_local z parts =
     (if 3 \<le> length parts then
        (case (parseInt10 (parts ! 0), parseInt10 (parts ! 1), parseInt10 (parts ! 2)) of
           (Some day, Some m, Some year) \<Rightarrow> new_Date_local z year (m - 1) day
         | _ \<Rightarrow> InvalidDate)
      else InvalidDate)"

text \<open>
  \<open>parseFrenchDate(dateStr)\<close> and \<open>formatToFrenchDate(date)\<close> of the dashboard script on a
  host in zone \<open>z\<close>. The branches are those of \<open>parseFrenchDate\<close> and
  \<open>formatToFrenchDate\<close> above, which are these functions on a host at UTC.
\<close>

definition parseFrenchDate_local ::
  "zone \<Rightarrow> (string \<Rightarrow> jsdate) \<Rightarrow> jsval \<Rightarrow> jsdate option" where
  "parseFrenchDate_local z np dateStr =
     (if \<not> truthy dateStr then None
      else case dateStr of
        JNum n \<Rightarrow>
          (case getTime (excelEpoch_local z) of
             None \<Rightarrow> Some InvalidDate
           | Some e \<Rightarrow> Some (TimeClip (e + n * msPerDay)))
      | _ \<Rightarrow>
          (let iso = (case dateStr of
                        JStr s \<Rightarrow> if iso_prefix s then np s else InvalidDate
                      | _ \<Rightarrow> InvalidDate)
           in if iso \<noteq> InvalidDate then Some iso
              else
                (let french = french_date_local z (split_on is_sep (to_string dateStr))
                 in if french \<noteq> InvalidDate then Some french
                    else
                      (let date = new_Date_of np dateStr
                       in if date = InvalidDate then None else Some date))))"

definition formatToFrenchDate_local :: "zone \<Rightarrow> jsdate option \<Rightarrow> string option" where
  "formatToFrenchDate_local z date =
     (case date of
        None \<Rightarrow> None
      | Some InvalidDate \<Rightarrow> None
      | Some d \<Rightarrow>
          Some (padStart2 (num_str (getDate_local z d)) @ ''/''
                @ padStart2 (num_str (map_option (\<lambda>m. m + 1) (getMonth_local z d))) @ ''/''
                @ num_str (getFullYear_local z d)))"

section \<open>Classification from the equipment key\<close>

text \<open>
  Errors are values. A \<open>TypeError\<close> arises where the source calls \<open>toUpperCase\<close> on a
  truthy value that is not a string; its message is the engine's.
\<close>

datatype js_error = Error string | TypeError string

definition message :: "js_error \<Rightarrow> string" where
  "message e = (case e of Error m \<Rightarrow> m | TypeError m \<Rightarrow> m)"

definition not_a_function :: js_error where
  "not_a_function = TypeError ''toUpperCase is not a function''"

definition getEquipmentType :: "jsval \<Rightarrow> js_error + string" where
  "getEquipmentType moKey =
     (if \<not> truthy moKey then Inr ''Other''
      else case moKey of
        JStr s \<Rightarrow>
          (let k = toUpperCase s in
           if str_includes k ''STS'' then Inr ''STS Crane''
           else if str_includes k ''SPS'' \<or> str_includes k ''SPR'' then Inr ''Spreader''
           else Inr ''Other'')
      | _ \<Rightarrow> Inl not_a_function)"

definition getFaultLocation :: "jsval \<Rightarrow> js_error + string" where
  "getFaultLocation moKey =
     (if \<not> truthy moKey then Inr ''Other''
      else case moKey of
        JStr s \<Rightarrow>
          (let k = toUpperCase s in
           if str_includes k ''MNH'' then Inr ''HOIST''
           else if str_includes k ''BMH'' then Inr ''BOOM''
           else if str_includes k ''HDB'' then Inr ''SPREADER''
           else if str_includes k ''GAN'' then Inr ''GANTRY''
           else if str_includes k ''ELE'' then Inr ''ELECTRICAL''
           else if str_includes k ''TRL'' then Inr ''TROLLEY''
           else if str_includes k ''LIG'' then Inr ''LIGHTING''
           else if str_includes k ''CAB'' then Inr ''OPERATOR CABIN''
           else if str_includes k ''HYD'' then Inr ''HYDRAULIC''
           else if str_includes k ''FES'' then Inr ''FESTOON''
           else if str_includes k ''ELV'' then Inr ''ELEVATOR''
           else if str_includes k ''TRM'' \<or> str_includes k ''TLS'' then Inr ''TLS''
           else if str_includes k ''SLE'' then Inr ''Machine room''
           else Inr ''Other'')
      | _ \<Rightarrow> Inl not_a_function)"

text \<open>
  The regular expression \<open>/SPR(\d+)/i\<close>: the leftmost place where the letters S, P, R in
  either case are followed by a digit; the group is the whole run of digits there. A
  character matches a letter of the pattern when its capital is that letter.
\<close>

definition ci_char :: "char \<Rightarrow> char \<Rightarrow> bool" where
  "ci_char c u = (upper_char c = [u])"

definition spr_here :: "string \<Rightarrow> string option" where
  "spr_here s =
     (case s of
        a # b # c # rest \<Rightarrow>
          (if ci_char a CHR ''S'' \<and> ci_char b CHR ''P'' \<and> ci_char c CHR ''R''
              \<and> takeWhile is_digit rest \<noteq> []
           then Some (takeWhile is_digit rest) else None)
      | _ \<Rightarrow> None)"

fun spr_match :: "string \<Rightarrow> string option" where
  "spr_match [] = None"
| "spr_match (c # cs) =
     (case spr_here (c # cs) of Some ds \<Rightarrow> Some ds | None \<Rightarrow> spr_match cs)"

definition isValidSpreaderNumber :: "string \<Rightarrow> bool" where
  "isValidSpreaderNumber spreaderName =
     (case spr_match spreaderName of
        None \<Rightarrow> False
      | Some ds \<Rightarrow>
          (case parseInt10 ds of
             None \<Rightarrow> False
           | Some number \<Rightarrow> number < 100 \<or> number > 200))"

section \<open>Row normalisation: \<open>processExcelWorkbook\<close>\<close>

text \<open>The equipment name of a row; the empty string marks a row to skip.\<close>

definition extract_EQ_name :: "jsval \<Rightarrow> js_error + string" where
  "extract_EQ_name mo_key =
     (if truthy mo_key then
        (case mo_key of
           JStr s \<Rightarrow>
             (let moKey = toUpperCase s in
              if str_includes moKey ''STS'' then Inr (take 5 moKey)
              else if str_includes moKey ''SPR'' \<or> str_includes moKey ''SPS'' then
                (if isValidSpreaderNumber moKey then Inr (take 6 moKey) else Inr [])
              else Inr [])
         | _ \<Rightarrow> Inl not_a_function)
      else Inr [])"

text \<open>A date field of a row, parsed unless the field is absent or \<open>null\<close>.\<close>

definition row_date :: "(string \<Rightarrow> jsdate) \<Rightarrow> jsval \<Rightarrow> jsdate option" where
  "row_date np v = (if v \<noteq> JUndefined \<and> v \<noteq> JNull then parseFrenchDate np v else None)"

definition date_cell :: "jsdate option \<Rightarrow> jsval" where
  "date_cell d =
     (case d of
        None \<Rightarrow> JNull
      | Some x \<Rightarrow> (case formatToFrenchDate (Some x) of None \<Rightarrow> JNull | Some s \<Rightarrow> JStr s))"

text \<open>
  The callback of \<open>combinedData.map\<close>: \<open>Inr None\<close> is the \<open>null\<close> of a skipped row. The
  object literal \<open>{...row, EQ_name, WO_key: ..., ...}\<close> sets its fields in the order
  written. \<open>rnd index\<close> is what \<open>Math.floor(Math.random() * 10000)\<close> would draw for the
  row.
\<close>

definition normalize_row ::
  "(string \<Rightarrow> jsdate) \<Rightarrow> (nat \<Rightarrow> nat) \<Rightarrow> obj \<Rightarrow> nat \<Rightarrow> js_error + obj option" where
  "normalize_row np rnd row index =
     (let orderDate = row_date np (field row ''Order_date'');
          execDate = row_date np (field row ''Jobexec_dt'');
          n = show_nat (280000 + int index)
      in case extract_EQ_name (field row ''MO_key'') of
           Inl e \<Rightarrow> Inl e
         | Inr EQ_name \<Rightarrow>
             if EQ_name = [] then Inr None
             else
               (case getEquipmentType (field row ''MO_key'') of
                  Inl e \<Rightarrow> Inl e
                | Inr equipmentType \<Rightarrow>
                    (case getFaultLocation (field row ''MO_key'') of
                       Inl e \<Rightarrow> Inl e
                     | Inr faultLocation \<Rightarrow>
                         Inr (Some (fold (\<lambda>(k, v). AList.update k v)
                           [(''EQ_name'', JStr EQ_name),
                            (''WO_key'', js_or (field row ''WO_key'')
                               (js_or (field row ''wo_key'') (JStr (''WO'' @ n)))),
                            (''WO_name'', js_or (field row ''WO_name'')
                               (js_or (field row ''wo_name'') (JStr (''Work Order '' @ n)))),
                            (''Description'', js_or (field row ''Description'')
                               (js_or (field row ''description'')
                                  (JStr (''Description for WO '' @ n)))),
                            (''MO_key'', js_or (field row ''MO_key'')
                               (js_or (field row ''mo_key'')
                                  (JStr (''MO'' @ show_nat (int (rnd index)))))),
                            (''Jobstatus'', js_or (field row ''Jobstatus'') (JStr ''active'')),
                            (''EQ_type'', JStr equipmentType),
                            (''faultlocation'', JStr faultLocation),
                            (''Job_type'', js_or (field row ''Job_type'')
                               (js_or (field row ''job_type'')
                                  (js_or (field row ''type'') (JStr ''Repair'')))),
                            (''Cost_purpose_key'', js_or (field row ''Cost_purpose_key'')
                               (js_or (field row ''cost_purpose'')
                                  (js_or (field row ''purpose'') (JStr ''Corrective'')))),
                            (''Order_date'', date_cell orderDate),
                            (''Jobexec_dt'', date_cell execDate)]
                           row)))))"

text \<open>\<open>Array.prototype.map\<close> with a callback that may throw: the first error ends it.\<close>

fun map_rows ::
  "(obj \<Rightarrow> nat \<Rightarrow> js_error + obj option) \<Rightarrow> obj list \<Rightarrow> nat \<Rightarrow> js_error + obj option list" where
  "map_rows f [] i = Inr []"
| "map_rows f (r # rs) i =
     (case f r i of
        Inl e \<Rightarrow> Inl e
      | Inr x \<Rightarrow> (case map_rows f rs (Suc i) of Inl e \<Rightarrow> Inl e | Inr xs \<Rightarrow> Inr (x # xs)))"

text \<open>\<open>.filter(Boolean)\<close> on the mapped rows.\<close>

definition non_null :: "'a option list \<Rightarrow> 'a list" where
  "non_null xs = map the (filter (\<lambda>x. x \<noteq> None) xs)"

section \<open>Aggregation: \<open>processData\<close>\<close>

definition statusMap :: "(string \<times> string \<times> string) list" where
  "statusMap =
   [(''0'', ''TEM'', ''Template''),
    (''1'', ''PAS'', ''Passive''),
    (''2'', ''ORD'', ''Job ordered''),
    (''3'', ''INI'', ''Job Initial status - Default''),
    (''4'', ''LAT'', ''Looked at''),
    (''5'', ''RDY'', ''Job ready for execution''),
    (''6'', ''IPG'', ''Job in progress''),
    (''7'', ''STP'', ''Job stopped''),
    (''8'', ''WSP'', ''Waiting for spare parts''),
    (''9'', ''RNF'', ''Registration not finished''),
    (''10'', ''FIN'', ''Technically finished''),
    (''50'', ''WPP'', ''Pending spare parts PSTL''),
    (''55'', ''WSL'', ''Pending spare parts LCT''),
    (''60'', ''ODE'', ''Ops Delay''),
    (''65'', ''WFT'', ''Tools/Service equipment''),
    (''70'', ''ITS'', ''IT Support'')]"

text \<open>
  \<open>getJobStatusFullName(code)\<close>, giving \<open>obs\<close> and \<open>description\<close>. The test
  \<open>!isNaN(code) && statusMap[code]\<close> holds exactly when the text of the code is a key of
  the table: the keys are numerals, and the properties every object inherits are not.
\<close>

definition getJobStatusFullName :: "jsval \<Rightarrow> jsval \<times> jsval" where
  "getJobStatusFullName code =
     (case map_of statusMap (to_string code) of
        Some (ob, de) \<Rightarrow> (JStr ob, JStr de)
      | None \<Rightarrow>
          (case find (\<lambda>(k, ob, de). JStr ob = code) statusMap of
             Some (k, ob, de) \<Rightarrow> (JStr ob, JStr de)
           | None \<Rightarrow> (code, code)))"

text \<open>The first step of the callback of \<open>data.map\<close>: the status fields, when the item
  has a status.\<close>

definition with_status :: "obj \<Rightarrow> obj" where
  "with_status item =
     (if truthy (field item ''Jobstatus'') then
        (let status = getJobStatusFullName (field item ''Jobstatus'') in
         fold (\<lambda>(k, v). AList.update k v)
           [(''JobstatusCode'', field item ''Jobstatus''),
            (''JobstatusObs'', js_or (fst status) (JStr ''Unknown'')),
            (''JobstatusDescription'', js_or (snd status) (JStr ''Unknown''))]
           item)
      else item)"

text \<open>The text of \<open>item.WO_name || ''\<close>, a space and the text of
  \<open>item.Description || ''\<close>; then \<open>item.failure = determineFailure(combinedText) || 'Unknown'\<close>.\<close>

definition combinedText :: "obj \<Rightarrow> string" where
  "combinedText item =
     to_string (js_or (field item ''WO_name'') (JStr []))
     @ '' '' @ to_string (js_or (field item ''Description'') (JStr []))"

definition failure_of :: "obj \<Rightarrow> string" where
  "failure_of item =
     (case determineFailure (combinedText item) of
        None \<Rightarrow> ''Unknown''
      | Some l \<Rightarrow> (if l = [] then ''Unknown'' else l))"

text \<open>
  The callback of \<open>data.map\<close>. The only statement of its \<open>try\<close> block that can throw is
  \<open>item.MO_key.toUpperCase()\<close>, on a truthy key that is not a string; the \<open>catch\<close> block
  then gives the item with the defaults.
\<close>

definition enrich_item :: "obj \<Rightarrow> obj" where
  "enrich_item item0 =
     (let item = with_status item0 in
      if truthy (field item ''MO_key'') then
        (case field item ''MO_key'' of
           JStr s \<Rightarrow>
             (let moKey = toUpperCase s;
                  EQ_name = (if str_includes moKey ''STS'' then take 5 moKey
                             else if str_includes moKey ''SPR'' then take 6 moKey
                             else ''Unknown'')
              in AList.update ''failure'' (JStr (failure_of item))
                   (AList.update ''EQ_name'' (JStr EQ_name) item))
         | _ \<Rightarrow>
             fold (\<lambda>(k, v). AList.update k v)
               [(''JobstatusCode'', field item ''Jobstatus''),
                (''JobstatusObs'', JStr ''Unknown''),
                (''JobstatusDescription'', JStr ''Unknown''),
                (''failure'', JStr ''Unknown''),
                (''EQ_name'', JStr ''Unknown'')]
               item)
      else
        AList.update ''failure'' (JStr (failure_of item))
          (AList.update ''EQ_name'' (JStr ''Unknown'') item))"

text \<open>
  The processing time of a closed order in days, \<open>None\<close> for the \<open>null\<close> the callback
  returns: when a date is \<open>null\<close> the call of \<open>getTime\<close> on it throws and the \<open>catch\<close>
  gives \<open>null\<close>; when a date is invalid the test gives \<open>null\<close>. The quotient is exact
  (a rational number).
\<close>

definition processing_time :: "(string \<Rightarrow> jsdate) \<Rightarrow> obj \<Rightarrow> rat option" where
  "processing_time np item =
     (case parseFrenchDate np (field item ''Jobexec_dt'') of
        None \<Rightarrow> None
      | Some execDate \<Rightarrow>
          (case parseFrenchDate np (field item ''Order_date'') of
             None \<Rightarrow> None
           | Some orderDate \<Rightarrow>
               (case (getTime execDate, getTime orderDate) of
                  (Some e, Some ord) \<Rightarrow> Some (of_int (e - ord) / (1000 * 60 * 60 * 24))
                | _ \<Rightarrow> None)))"

definition closed_wo :: "obj list \<Rightarrow> obj list" where
  "closed_wo data = filter (\<lambda>item. truthy (field item ''Jobexec_dt'')) data"

definition validProcessingTimes :: "(string \<Rightarrow> jsdate) \<Rightarrow> obj list \<Rightarrow> rat list" where
  "validProcessingTimes np data = non_null (map (processing_time np) (closed_wo data))"

definition avg_processing_time_of :: "(string \<Rightarrow> jsdate) \<Rightarrow> obj list \<Rightarrow> rat" where
  "avg_processing_time_of np data =
     (if 0 < length (closed_wo data) then
        (let ts = validProcessingTimes np data in
         if 0 < length ts then foldl (+) 0 ts / of_nat (length ts) else 0)
      else 0)"

text \<open>
  The argument of \<open>processData\<close>: a falsy value, a truthy value that is no array, or an
  array, whose elements are objects (\<open>Some\<close>) or anything else (\<open>None\<close>). The result keeps
  the data and the scalar indicators; the distributions and charts are computed after
  them by statements that do not throw, and no property below reads them.
\<close>

datatype pd_arg = ArgFalsy | ArgNotArray | ArgArray "obj option list"

record pd_result =
  data :: "obj list"
  total_wo :: nat
  closed_count :: nat
  waiting_count :: nat
  avg_processing_time :: rat

definition processData :: "(string \<Rightarrow> jsdate) \<Rightarrow> pd_arg \<Rightarrow> js_error + pd_result" where
  "processData np arg =
     (case arg of
        ArgFalsy \<Rightarrow> Inl (Error ''No data provided to process'')
      | ArgNotArray \<Rightarrow> Inl (Error ''Data must be an array'')
      | ArgArray xs \<Rightarrow>
          if length xs = 0 then Inl (Error ''Data array is empty'')
          else
            (let objs = non_null xs in
             if length objs = 0 then
               Inl (Error (''Failed to process data: ''
                           @ ''No valid data objects found in array''))
             else
               (let d = map enrich_item objs in
                Inr \<lparr>data = d,
                     total_wo = length d,
                     closed_count = length (closed_wo d),
                     waiting_count =
                       length (filter (\<lambda>item. \<not> truthy (field item ''Jobexec_dt'')) d),
                     avg_processing_time = avg_processing_time_of np d\<rparr>)))"

text \<open>
  A workbook: the rows \<open>XLSX.utils.sheet_to_json\<close> gives for each sheet, and the sheet
  names in order. \<open>None\<close> stands for a missing workbook or one without sheets.
\<close>

record workbook =
  Sheets :: "(string \<times> obj list) list"
  SheetNames :: "string list"

definition tagged :: "string \<Rightarrow> obj list \<Rightarrow> obj list" where
  "tagged status rows = map (AList.update ''Jobstatus'' (JStr status)) rows"

definition combinedData :: "workbook \<Rightarrow> obj list" where
  "combinedData wb =
     (let active = (case map_of (Sheets wb) ''WO active'' of
                      None \<Rightarrow> [] | Some rows \<Rightarrow> tagged ''active'' rows);
          history = (case map_of (Sheets wb) ''WO history'' of
                       None \<Rightarrow> [] | Some rows \<Rightarrow> tagged ''history'' rows);
          combined = active @ history
      in if length combined = 0 \<and> 0 < length (SheetNames wb) then
           tagged ''active''
             (case map_of (Sheets wb) (hd (SheetNames wb)) of None \<Rightarrow> [] | Some rows \<Rightarrow> rows)
         else combined)"

text \<open>
  \<open>processExcelWorkbook(workbook)\<close>. Every error thrown inside its \<open>try\<close> block is thrown
  again with the prefix of the \<open>catch\<close> block. The update of the time period labels after
  \<open>processData\<close> writes to the page only.
\<close>

definition processExcelWorkbook ::
  "(string \<Rightarrow> jsdate) \<Rightarrow> (nat \<Rightarrow> nat) \<Rightarrow> workbook option \<Rightarrow> js_error + pd_result" where
  "processExcelWorkbook np rnd workbook =
     (case workbook of
        None \<Rightarrow> Inl (Error ''Invalid workbook format'')
      | Some wb \<Rightarrow>
          (case
             (if length (combinedData wb) = 0 then
                Inl (Error ''No data found in the Excel file'')
              else
                (case map_rows (normalize_row np rnd) (combinedData wb) 0 of
                   Inl e \<Rightarrow> Inl e
                 | Inr rows \<Rightarrow>
                     (let processedData = non_null rows in
                      if length processedData = 0 then
                        Inl (Error ''No valid data rows found after processing'')
                      else processData np (ArgArray (map Some processedData)))))
           of
             Inl e \<Rightarrow> Inl (Error (''Error processing Excel data: '' @ message e))
           | Inr r \<Rightarrow> Inr r))"

section \<open>Filtering: \<open>applyFilters\<close>\<close>

text \<open>
  \<open>isoWeek.split('-W')\<close>, and the number a part of it converts to. The value of a week
  input is empty or has the form \<open>YYYY-Www\<close>; for the parts of such a value (digits, or
  nothing) the conversion is as below, and any other text is taken as \<open>NaN\<close>.
\<close>

fun split_dashW :: "string \<Rightarrow> string list" where
  "split_dashW (a # b # cs) =
     (if a = CHR ''-'' \<and> b = CHR ''W'' then [] # split_dashW cs
      else (case split_dashW (b # cs) of [] \<Rightarrow> [[a]] | w # ws \<Rightarrow> (a # w) # ws))"
| "split_dashW cs = [cs]"

definition part_number :: "string \<Rightarrow> int option" where
  "part_number s =
     (if s = [] then Some 0
      else if list_all is_digit s then Some (digits_val s)
      else None)"

text \<open>
  \<open>getDateFromISOWeek(isoWeek)\<close>: \<open>null\<close> for a falsy argument; otherwise the first of
  January plus seven days per week, moved to the Monday of its week. Nothing in the body
  throws. A missing second part is \<open>undefined\<close>, whose number is \<open>NaN\<close>.
\<close>

definition getDateFromISOWeek :: "string \<Rightarrow> jsdate option" where
  "getDateFromISOWeek isoWeek =
     (if isoWeek = [] then None
      else
        (let parts = split_dashW isoWeek;
             year = part_number (parts ! 0);
             week = (if 1 < length parts then part_number (parts ! 1) else None);
             simple = (case (year, week) of
                         (Some y, Some w) \<Rightarrow> new_Date_ymd y 0 (1 + (w - 1) * 7)
                       | _ \<Rightarrow> InvalidDate)
         in case (getDay simple, getDate simple) of
              (Some day, Some dt) \<Rightarrow>
                Some (setDate simple (dt - day + (if day = 0 then - 6 else 1)))
            | _ \<Rightarrow> Some InvalidDate))"

text \<open>
  The filter form: the values of the four week inputs and the selected values of the six
  multi-selects; \<open>None\<close> is an element the page does not have.
\<close>

record filter_form =
  orderStartDate :: "string option"
  orderEndDate :: "string option"
  execStartDate :: "string option"
  execEndDate :: "string option"
  jobTypeSelect :: "string list option"
  jobStatusSelect :: "string list option"
  faultLocationSelect :: "string list option"
  eqTypeSelect :: "string list option"
  costPurposeSelect :: "string list option"
  failureSelect :: "string list option"

text \<open>\<open>v ? getDateFromISOWeek(v) : null\<close> for the value \<open>v\<close> of a week input.\<close>

definition bound_of :: "string option \<Rightarrow> jsdate option" where
  "bound_of v = (case v of None \<Rightarrow> None | Some s \<Rightarrow> if s = [] then None else getDateFromISOWeek s)"

definition selected :: "string list option \<Rightarrow> string list" where
  "selected sel = (case sel of None \<Rightarrow> [] | Some xs \<Rightarrow> xs)"

text \<open>\<open>a < b\<close> and \<open>a > b\<close> on dates compare the time values; with \<open>NaN\<close> on a side both
  are false.\<close>

definition date_lt :: "jsdate \<Rightarrow> jsdate \<Rightarrow> bool" where
  "date_lt a b = (case (getTime a, getTime b) of (Some x, Some y) \<Rightarrow> x < y | _ \<Rightarrow> False)"

text \<open>\<open>bound && itemDate && itemDate < bound\<close>, and the same with \<open>>\<close>.\<close>

definition below_bound :: "jsdate option \<Rightarrow> jsdate option \<Rightarrow> bool" where
  "below_bound bound itemDate =
     (case (bound, itemDate) of (Some b, Some d) \<Rightarrow> date_lt d b | _ \<Rightarrow> False)"

definition above_bound :: "jsdate option \<Rightarrow> jsdate option \<Rightarrow> bool" where
  "above_bound bound itemDate =
     (case (bound, itemDate) of (Some b, Some d) \<Rightarrow> date_lt b d | _ \<Rightarrow> False)"

text \<open>\<open>sel.length > 0 && !sel.includes(v)\<close>.\<close>

definition not_selected :: "string list \<Rightarrow> jsval \<Rightarrow> bool" where
  "not_selected sel v = (0 < length sel \<and> v \<notin> set (map JStr sel))"

text \<open>The callback of \<open>currentData.data.filter\<close>.\<close>

definition filter_keeps :: "(string \<Rightarrow> jsdate) \<Rightarrow> filter_form \<Rightarrow> obj \<Rightarrow> bool" where
  "filter_keeps np f item =
     (let itemOrderDate = parseFrenchDate np (field item ''Order_date'');
          itemExecDate = parseFrenchDate np (field item ''Jobexec_dt'')
      in if below_bound (bound_of (orderStartDate f)) itemOrderDate then False
         else if above_bound (bound_of (orderEndDate f)) itemOrderDate then False
         else if below_bound (bound_of (execStartDate f)) itemExecDate then False
         else if above_bound (bound_of (execEndDate f)) itemExecDate then False
         else if not_selected (selected (jobTypeSelect f)) (field item ''Job_type'') then False
         else if not_selected (selected (jobStatusSelect f)) (field item ''JobstatusObs'')
           then False
         else if not_selected (selected (faultLocationSelect f)) (field item ''faultlocation'')
           then False
         else if not_selected (selected (eqTypeSelect f)) (field item ''EQ_type'') then False
         else if not_selected (selected (costPurposeSelect f)) (field item ''Cost_purpose_key'')
           then False
         else if not_selected (selected (failureSelect f)) (field item ''failure'') then False
         else True)"

text \<open>
  \<open>applyFilters()\<close>: without loaded data it alerts and returns (\<open>None\<close>); otherwise the
  filtered collection is what it hands to the charts and indicators.
\<close>

definition applyFilters ::
  "(string \<Rightarrow> jsdate) \<Rightarrow> pd_result option \<Rightarrow> filter_form \<Rightarrow> obj list option" where
  "applyFilters np currentData f =
     (case currentData of
        None \<Rightarrow> None
      | Some cd \<Rightarrow> Some (filter (filter_keeps np f) (data cd)))"

section \<open>Concrete inputs\<close>

text \<open>An engine whose date parser rejects every text, and a random source that always
  draws 0: the concrete runs below reach neither.\<close>

definition np_none :: "string \<Rightarrow> jsdate" where
  "np_none s = InvalidDate"

definition rnd_zero :: "nat \<Rightarrow> nat" where
  "rnd_zero i = 0"

text \<open>What a row keeps in a field after normalisation: \<open>None\<close> when the row is skipped
  or the normalisation fails.\<close>

definition kept_field :: "string \<Rightarrow> js_error + obj option \<Rightarrow> jsval option" where
  "kept_field k res = (case res of Inr (Some r) \<Rightarrow> Some (field r k) | _ \<Rightarrow> None)"

text \<open>A filter form with nothing chosen, and one with a lower bound on the order date.\<close>

definition form_empty :: filter_form where
  "form_empty = \<lparr>orderStartDate = Some [], orderEndDate = None, execStartDate = Some [],
     execEndDate = None, jobTypeSelect = Some [], jobStatusSelect = None,
     faultLocationSelect = Some [], eqTypeSelect = None, costPurposeSelect = Some [],
     failureSelect = None\<rparr>"

definition form_from_w10 :: filter_form where
  "form_from_w10 = \<lparr>orderStartDate = Some ''2024-W10'', orderEndDate = None,
     execStartDate = None, execEndDate = None, jobTypeSelect = None, jobStatusSelect = None,
     faultLocationSelect = None, eqTypeSelect = None, costPurposeSelect = None,
     failureSelect = None\<rparr>"

text \<open>Loaded data with two orders: one without an order date, one ordered on
  1 January 2024.\<close>

definition two_orders :: pd_result where
  "two_orders = \<lparr>data = [[(''WO_key'', JStr ''WO1''), (''Order_date'', JNull)],
                          [(''WO_key'', JStr ''WO2''), (''Order_date'', JStr ''01/01/2024'')]],
                  total_wo = 2, closed_count = 0, waiting_count = 2,
                  avg_processing_time = 0\<rparr>"

text \<open>Workbooks: one whose sheet has no row, one whose only row is a spreader of the
  excluded band, one whose only row has the key \<open>STS\<close>.\<close>

definition wb_no_rows :: workbook where
  "wb_no_rows = \<lparr>Sheets = [(''WO active'', [])], SheetNames = [''WO active'']\<rparr>"

definition wb_excluded_spreader :: workbook where
  "wb_excluded_spreader =
     \<lparr>Sheets = [(''WO active'', [[(''MO_key'', JStr ''SPR150ABC'')]])],
      SheetNames = [''WO active'']\<rparr>"

definition wb_short_key :: workbook where
  "wb_short_key =
     \<lparr>Sheets = [(''WO active'', [[(''MO_key'', JStr ''STS'')]])],
      SheetNames = [''WO active'']\<rparr>"

text \<open>The values of a field over the data a run returns; empty when the run fails.\<close>

definition result_fields :: "string \<Rightarrow> js_error + pd_result \<Rightarrow> jsval list" where
  "result_fields k res = (case res of Inl e \<Rightarrow> [] | Inr r \<Rightarrow> map (\<lambda>wo. field wo k) (data r))"

text \<open>The average processing time a run returns; \<open>None\<close> when the run fails.\<close>

definition result_avg :: "js_error + pd_result \<Rightarrow> rat option" where
  "result_avg res = (case res of Inl e \<Rightarrow> None | Inr r \<Rightarrow> Some (avg_processing_time r))"

text \<open>The work order and the result the run on \<open>wb_short_key\<close> returns, and a second
  random source.\<close>

definition short_key_order :: obj where
  "short_key_order =
     [(''MO_key'', JStr ''STS''), (''Jobstatus'', JStr ''active''), (''EQ_name'', JStr ''STS''),
      (''WO_key'', JStr ''WO280000''), (''WO_name'', JStr ''Work Order 280000''),
      (''Description'', JStr ''Description for WO 280000''), (''EQ_type'', JStr ''STS Crane''),
      (''faultlocation'', JStr ''Other''), (''Job_type'', JStr ''Repair''),
      (''Cost_purpose_key'', JStr ''Corrective''), (''Order_date'', JNull),
      (''Jobexec_dt'', JNull), (''JobstatusCode'', JStr ''active''),
      (''JobstatusObs'', JStr ''active''), (''JobstatusDescription'', JStr ''active''),
      (''failure'', JStr ''SCR'')]"

definition short_key_result :: pd_result where
  "short_key_result =
     \<lparr>data = [short_key_order], total_wo = 1, closed_count = 0, waiting_count = 1,
      avg_processing_time = 0\<rparr>"

definition rnd_nines :: "nat \<Rightarrow> nat" where
  "rnd_nines i = 9999"

text \<open>Two closed orders: one executed two days before it was ordered, one four days
  after.\<close>

definition order_executed_early :: obj where
  "order_executed_early =
     [(''WO_key'', JStr ''WO1''), (''Order_date'', JStr ''05/01/2023''),
      (''Jobexec_dt'', JStr ''03/01/2023'')]"

definition order_four_days :: obj where
  "order_four_days =
     [(''WO_key'', JStr ''WO2''), (''Order_date'', JStr ''01/01/2023''),
      (''Jobexec_dt'', JStr ''05/01/2023'')]"

text \<open>Closed orders with processing times of 1, 3 and 5 days, and one whose execution
  date is no date.\<close>

definition order_one_day :: obj where
  "order_one_day =
     [(''WO_key'', JStr ''WO3''), (''Order_date'', JStr ''01/03/2023''),
      (''Jobexec_dt'', JStr ''02/03/2023'')]"

definition order_three_days :: obj where
  "order_three_days =
     [(''WO_key'', JStr ''WO4''), (''Order_date'', JStr ''01/03/2023''),
      (''Jobexec_dt'', JStr ''04/03/2023'')]"

definition order_five_days :: obj where
  "order_five_days =
     [(''WO_key'', JStr ''WO5''), (''Order_date'', JStr ''27/02/2023''),
      (''Jobexec_dt'', JStr ''04/03/2023'')]"

definition order_no_exec_date :: obj where
  "order_no_exec_date =
     [(''WO_key'', JStr ''WO6''), (''Order_date'', JStr ''01/03/2023''),
      (''Jobexec_dt'', JStr ''N/A'')]"

text \<open>
  Two zones. A host at UTC; and a host in the zone Asia/Shanghai, which kept local mean
  time, 8 h 5 min 43 s ahead of UTC, until the first of January 1901 and is 8 h ahead since
  (its summer-time years, which the runs below do not touch, are left out).
\<close>

definition zone_utc :: zone where
  "zone_utc = \<lparr>utc_offset = (\<lambda>t. 0), local_offset = (\<lambda>t. 0)\<rparr>"


section \<open>The failure-cause chain\<close>

text \<open>\<open>str_includes\<close> is the test for a contiguous substring.\<close>

lemma str_includes_iff: "str_includes s p \<longleftrightarrow> (\<exists>a b. s = a @ p @ b)"
proof (induction s)
  case Nil
  then show ?case by auto
next
  case (Cons c cs)
  show ?case
  proof
    assume "str_includes (c # cs) p"
    then consider "prefix p (c # cs)" | "str_includes cs p" by auto
    then show "\<exists>a b. c # cs = a @ p @ b"
    proof cases
      case 1
      then obtain b where "c # cs = p @ b" by (auto simp: prefix_def)
      then have "c # cs = [] @ p @ b" by simp
      then show ?thesis by blast
    next
      case 2
      with Cons.IH obtain a b where "cs = a @ p @ b" by auto
      then have "c # cs = (c # a) @ p @ b" by simp
      then show ?thesis by blast
    qed
  next
    assume "\<exists>a b. c # cs = a @ p @ b"
    then obtain a b where ab: "c # cs = a @ p @ b" by auto
    show "str_includes (c # cs) p"
    proof (cases a)
      case Nil
      with ab have "prefix p (c # cs)" by (auto simp: prefix_def)
      then show ?thesis by simp
    next
      case (Cons x a')
      with ab have "cs = a' @ p @ b" by simp
      with Cons.IH have "str_includes cs p" by auto
      then show ?thesis by simp
    qed
  qed
qed



lemma includes_nonempty:
  "str_includes (toUpperCase (trim cause)) (c # p) \<Longrightarrow> cause \<noteq> []"
  by (auto simp: toUpperCase_def trim_def)



text \<open>
  Claim C4. The rule with the label \<open>Hoist brake\<close> is never reached: no text is given that
  label, because a text that contains \<open>HOIST BRAKE\<close> is labelled by the eleventh rule of
  the table (\<open>Hoist service brake\<close>) or by one of the ten before it.
\<close>

theorem C4_hoist_brake_unreachable:
  "determineFailure cause \<noteq> Some ''Hoist brake''
   \<and> (str_includes (toUpperCase (trim cause)) ''HOIST BRAKE'' \<longrightarrow>
        determineFailure cause \<in> set (map (\<lambda>r. Some (snd r)) (take 11 failure_rules)))"
proof
  show "determineFailure cause \<noteq> Some ''Hoist brake''"
    by (simp add: determineFailure_def failure_rules_def rule_matches_def)
  show "str_includes (toUpperCase (trim cause)) ''HOIST BRAKE'' \<longrightarrow>
        determineFailure cause \<in> set (map (\<lambda>r. Some (snd r)) (take 11 failure_rules))"
  proof
    assume h: "str_includes (toUpperCase (trim cause)) ''HOIST BRAKE''"
    then have ne: "cause \<noteq> []" by (rule includes_nonempty)
    from h ne show "determineFailure cause
                    \<in> set (map (\<lambda>r. Some (snd r)) (take 11 failure_rules))"
      by (simp add: determineFailure_def failure_rules_def rule_matches_def)
  qed
qed

theorem C4_witness:
  "determineFailure ''Hoist brake worn'' \<noteq> Some ''Hoist brake''
   \<and> determineFailure ''Hoist brake worn'' = Some ''Hoist service brake''"
proof -
  have h: "str_includes (toUpperCase (trim ''Hoist brake worn'')) ''HOIST BRAKE''"
    by code_simp
  have e: "determineFailure ''Hoist brake worn'' = Some ''Hoist service brake''"
    by code_simp
  from C4_hoist_brake_unreachable [of "''Hoist brake worn''"] h e show ?thesis by simp
qed

section \<open>The filter\<close>

text \<open>
  Claim C7. With every criterion inactive (the four date bounds \<open>null\<close>, the six
  selections empty) \<open>applyFilters\<close> hands on the loaded collection itself, so the same
  orders with the same keys: an empty selection constrains nothing.
\<close>

theorem C7_no_op:
  "bound_of (orderStartDate f) = None \<Longrightarrow> bound_of (orderEndDate f) = None \<Longrightarrow>
   bound_of (execStartDate f) = None \<Longrightarrow> bound_of (execEndDate f) = None \<Longrightarrow>
   selected (jobTypeSelect f) = [] \<Longrightarrow> selected (jobStatusSelect f) = [] \<Longrightarrow>
   selected (faultLocationSelect f) = [] \<Longrightarrow> selected (eqTypeSelect f) = [] \<Longrightarrow>
   selected (costPurposeSelect f) = [] \<Longrightarrow> selected (failureSelect f) = [] \<Longrightarrow>
   applyFilters np (Some cd) f = Some (data cd)"
  by (simp add: applyFilters_def filter_keeps_def below_bound_def above_bound_def not_selected_def)

theorem C7_witness:
  "applyFilters np_none (Some two_orders) form_empty = Some (data two_orders)"
  using C7_no_op [of form_empty np_none two_orders]
  by (simp add: form_empty_def bound_of_def selected_def)

lemma below_bound_None: "below_bound b None = False" "below_bound None d = False"
  by (simp_all add: below_bound_def split: option.splits)

lemma above_bound_None: "above_bound b None = False" "above_bound None d = False"
  by (simp_all add: above_bound_def split: option.splits)

lemma bound_of_None: "bound_of None = None"
  by (simp add: bound_of_def)

text \<open>
  Claim C6, as the code has it. A work order whose order date (or execution date) does
  not parse passes the two bound checks on that field whether a bound is active or not:
  the filter keeps or drops it exactly as it would with the bounds of that field cleared.
  It is not excluded by an active bound.
\<close>

theorem C6_unparsed_dates_pass:
  "(parseFrenchDate np (field item ''Order_date'') = None \<longrightarrow>
      filter_keeps np f item
      = filter_keeps np (f\<lparr>orderStartDate := None, orderEndDate := None\<rparr>) item)
   \<and> (parseFrenchDate np (field item ''Jobexec_dt'') = None \<longrightarrow>
      filter_keeps np f item
      = filter_keeps np (f\<lparr>execStartDate := None, execEndDate := None\<rparr>) item)"
  by (simp add: filter_keeps_def below_bound_None above_bound_None bound_of_None)

text \<open>The claim as stated fails: with a lower bound on the order date active, the order
  without an order date is kept (and the order dated before the bound is dropped).\<close>

theorem C6_counterexample:
  "parseFrenchDate np_none (field [(''WO_key'', JStr ''WO1''), (''Order_date'', JNull)] ''Order_date'') = None
   \<and> bound_of (orderStartDate form_from_w10) = Some (TimeValue 1709510400000)
   \<and> applyFilters np_none (Some two_orders) form_from_w10
       = Some [[(''WO_key'', JStr ''WO1''), (''Order_date'', JNull)]]"
  by code_simp

theorem C6_witness:
  "filter_keeps np_none form_from_w10 [(''WO_key'', JStr ''WO1''), (''Order_date'', JNull)]"
proof -
  have h: "parseFrenchDate np_none (field [(''WO_key'', JStr ''WO1''), (''Order_date'', JNull)] ''Order_date'') = None"
    by code_simp
  have k: "filter_keeps np_none (form_from_w10\<lparr>orderStartDate := None, orderEndDate := None\<rparr>) [(''WO_key'', JStr ''WO1''), (''Order_date'', JNull)]"
    by code_simp
  from C6_unparsed_dates_pass [of np_none "[(''WO_key'', JStr ''WO1''), (''Order_date'', JNull)]" form_from_w10] h k
  show ?thesis by simp
qed

section \<open>Empty and invalid input\<close>

lemma map_rows_all_null:
  "(\<forall>i < length rs. f (rs ! i) (k + i) = Inr None) \<Longrightarrow>
   map_rows f rs k = Inr (replicate (length rs) None)"
proof (induction rs arbitrary: k)
  case Nil
  then show ?case by simp
next
  case (Cons r rs)
  from Cons.prems have 0: "f r k = Inr None" by force
  have "\<forall>i < length rs. f (rs ! i) (Suc k + i) = Inr None"
  proof (intro allI impI)
    fix i assume "i < length rs"
    with Cons.prems have "f ((r # rs) ! Suc i) (k + Suc i) = Inr None" by force
    then show "f (rs ! i) (Suc k + i) = Inr None" by simp
  qed
  then have "map_rows f rs (Suc k) = Inr (replicate (length rs) None)" by (rule Cons.IH)
  with 0 show ?case by simp
qed

lemma non_null_replicate_None: "non_null (replicate n None) = []"
  by (simp add: non_null_def)

text \<open>
  Claim C9. \<open>processData\<close> fails with a message when its argument is missing, is no array,
  is an empty array or holds no object; \<open>processExcelWorkbook\<close> fails when there is no
  workbook, when the workbook has no data row, and when every row is skipped by the
  normalisation. None of these returns empty aggregates.
\<close>

theorem C9_empty_input_fails:
  "processData np ArgFalsy = Inl (Error ''No data provided to process'')
   \<and> processData np ArgNotArray = Inl (Error ''Data must be an array'')
   \<and> processData np (ArgArray []) = Inl (Error ''Data array is empty'')
   \<and> (xs \<noteq> [] \<and> non_null xs = [] \<longrightarrow>
        processData np (ArgArray xs)
        = Inl (Error ''Failed to process data: No valid data objects found in array''))
   \<and> processExcelWorkbook np rnd None = Inl (Error ''Invalid workbook format'')
   \<and> (combinedData wb = [] \<longrightarrow>
        processExcelWorkbook np rnd (Some wb)
        = Inl (Error ''Error processing Excel data: No data found in the Excel file''))
   \<and> (combinedData wb \<noteq> [] \<and>
        (\<forall>i < length (combinedData wb).
           normalize_row np rnd (combinedData wb ! i) i = Inr None) \<longrightarrow>
        processExcelWorkbook np rnd (Some wb)
        = Inl (Error ''Error processing Excel data: No valid data rows found after processing''))"
proof (intro conjI impI)
  assume h: "combinedData wb \<noteq> [] \<and>
        (\<forall>i < length (combinedData wb).
           normalize_row np rnd (combinedData wb ! i) i = Inr None)"
  then have "map_rows (normalize_row np rnd) (combinedData wb) 0
             = Inr (replicate (length (combinedData wb)) None)"
    by (intro map_rows_all_null) simp
  with h show "processExcelWorkbook np rnd (Some wb)
        = Inl (Error ''Error processing Excel data: No valid data rows found after processing'')"
    by (simp add: processExcelWorkbook_def non_null_replicate_None message_def)
qed (simp_all add: processData_def processExcelWorkbook_def message_def)

theorem C9_witness:
  "processData np_none (ArgArray [None]) 
     = Inl (Error ''Failed to process data: No valid data objects found in array'')
   \<and> processExcelWorkbook np_none rnd_zero (Some wb_no_rows)
     = Inl (Error ''Error processing Excel data: No data found in the Excel file'')
   \<and> processExcelWorkbook np_none rnd_zero (Some wb_excluded_spreader)
     = Inl (Error ''Error processing Excel data: No valid data rows found after processing'')"
proof -
  have 1: "[None :: obj option] \<noteq> [] \<and> non_null [None :: obj option] = []" by code_simp
  have 2: "combinedData wb_no_rows = []" by code_simp
  have 3: "combinedData wb_excluded_spreader \<noteq> [] \<and>
        (\<forall>i < length (combinedData wb_excluded_spreader).
           normalize_row np_none rnd_zero (combinedData wb_excluded_spreader ! i) i = Inr None)"
    by code_simp
  from C9_empty_input_fails [of np_none "[None]" rnd_zero wb_no_rows] 1 2
  have a: "processData np_none (ArgArray [None]) 
     = Inl (Error ''Failed to process data: No valid data objects found in array'')"
   and b: "processExcelWorkbook np_none rnd_zero (Some wb_no_rows)
     = Inl (Error ''Error processing Excel data: No data found in the Excel file'')"
    by blast+
  from C9_empty_input_fails [of np_none "[None]" rnd_zero wb_excluded_spreader] 3
  have c: "processExcelWorkbook np_none rnd_zero (Some wb_excluded_spreader)
     = Inl (Error ''Error processing Excel data: No valid data rows found after processing'')"
    by blast
  from a b c show ?thesis by simp
qed

section \<open>Row normalisation and classification\<close>

lemma field_update: "field (AList.update k v ob) k' = (if k' = k then v else field ob k')"
  by (simp add: field_def update_conv')

lemma includes_ne: "str_includes s (c # p) \<Longrightarrow> s \<noteq> []"
  by (cases s) auto

lemma toUpperCase_Nil: "toUpperCase [] = []"
  by (simp add: toUpperCase_def)

lemma digit_not_space: "is_digit c \<Longrightarrow> \<not> is_space c"
  by (auto simp: is_digit_def is_space_def Let_def)

lemma digit_not_sign: "is_digit c \<Longrightarrow> c \<noteq> CHR ''-'' \<and> c \<noteq> CHR ''+''"
  by (auto simp: is_digit_def Let_def)

lemma parseInt10_digits:
  assumes "ds \<noteq> []" "list_all is_digit ds"
  shows "parseInt10 ds = Some (digits_val ds)"
proof -
  from assms obtain c cs where ds: "ds = c # cs" and c: "is_digit c"
    by (cases ds) auto
  have tw: "takeWhile is_digit ds = ds"
    using assms(2) by (simp add: list_all_iff)
  have dw: "dropWhile is_space ds = ds"
    using ds c by (simp add: digit_not_space)
  have u: "(if ds \<noteq> [] \<and> (hd ds = CHR ''-'' \<or> hd ds = CHR ''+'') then tl ds else ds) = ds"
    using ds digit_not_sign [OF c] by simp
  have neg: "\<not> (ds \<noteq> [] \<and> hd ds = CHR ''-'')"
    using ds digit_not_sign [OF c] by simp
  show ?thesis
    unfolding parseInt10_def Let_def dw u tw using neg assms(1) by simp
qed

lemma spr_here_digits: "spr_here s = Some ds \<Longrightarrow> ds \<noteq> [] \<and> list_all is_digit ds"
  by (auto simp: spr_here_def list_all_iff split: list.splits if_splits dest: set_takeWhileD)

lemma spr_match_digits: "spr_match s = Some ds \<Longrightarrow> ds \<noteq> [] \<and> list_all is_digit ds"
  by (induction s) (auto split: option.splits dest: spr_here_digits)

lemma isValid_iff:
  "spr_match U = Some ds \<Longrightarrow>
   isValidSpreaderNumber U = (digits_val ds < 100 \<or> 200 < digits_val ds)"
  using spr_match_digits [of U ds]
  by (auto simp: isValidSpreaderNumber_def parseInt10_digits)

lemma upper_STSG: "toUpperCase ''STSG0001MNH002'' = ''STSG0001MNH002''"
  by code_simp

lemma normalize_row_fields:
  assumes "extract_EQ_name (field row ''MO_key'') = Inr n" "n \<noteq> []"
    "getEquipmentType (field row ''MO_key'') = Inr t"
    "getFaultLocation (field row ''MO_key'') = Inr l"
  shows "\<exists>r. normalize_row np rnd row i = Inr (Some r) \<and> field r ''EQ_name'' = JStr n \<and>
           field r ''EQ_type'' = JStr t \<and> field r ''faultlocation'' = JStr l \<and>
           field r ''MO_key'' = js_or (field row ''MO_key'')
                (js_or (field row ''mo_key'') (JStr (''MO'' @ show_nat (rnd i))))"
  using assms unfolding normalize_row_def Let_def
  by (simp add: field_update)


lemma getFaultLocation_str: "\<exists>l. getFaultLocation (JStr s) = Inr l"
  by (simp add: getFaultLocation_def Let_def)

lemma getEquipmentType_STS:
  "str_includes (toUpperCase s) ''STS'' \<Longrightarrow> getEquipmentType (JStr s) = Inr ''STS Crane''"
  by (auto simp: getEquipmentType_def Let_def truthy_def toUpperCase_Nil)

lemma getEquipmentType_SPR:
  "\<not> str_includes (toUpperCase s) ''STS'' \<Longrightarrow> str_includes (toUpperCase s) ''SPR'' \<Longrightarrow>
   getEquipmentType (JStr s) = Inr ''Spreader''"
  by (auto simp: getEquipmentType_def Let_def truthy_def toUpperCase_Nil)

lemma extract_STS:
  "str_includes (toUpperCase s) ''STS'' \<Longrightarrow>
   extract_EQ_name (JStr s) = Inr (take 5 (toUpperCase s))"
  by (auto simp: extract_EQ_name_def Let_def truthy_def toUpperCase_Nil)

lemma extract_SPR:
  "\<not> str_includes (toUpperCase s) ''STS'' \<Longrightarrow> str_includes (toUpperCase s) ''SPR'' \<Longrightarrow>
   extract_EQ_name (JStr s)
   = Inr (if isValidSpreaderNumber (toUpperCase s) then take 6 (toUpperCase s) else [])"
  by (auto simp: extract_EQ_name_def Let_def truthy_def toUpperCase_Nil)

lemma take_ne: "xs \<noteq> [] \<Longrightarrow> 0 < n \<Longrightarrow> take n xs \<noteq> []"
  by (cases xs) auto

lemma normalize_row_skip:
  "extract_EQ_name (field row ''MO_key'') = Inr [] \<Longrightarrow> normalize_row np rnd row i = Inr None"
  by (simp add: normalize_row_def Let_def)

text \<open>
  Claim C5, as the code has it. The key of a row is tested for \<open>STS\<close> first: a row whose
  key (upper-cased) contains \<open>STS\<close> is kept with equipment type \<open>STS Crane\<close>, and the key
  \<open>STSG0001MNH002\<close> gets the fault location \<open>HOIST\<close>. For a key without \<open>STS\<close> that
  contains \<open>SPR\<close>, where \<open>SPR\<close> is followed by digits that form a number: the row is skipped
  when the number is from 100 to 200, and kept with equipment type \<open>Spreader\<close> when it is
  below 100 or above 200.
\<close>

theorem C5_row_classification:
  assumes "field row ''MO_key'' = JStr key"
  shows
  "(str_includes (toUpperCase key) ''STS'' \<longrightarrow>
      kept_field ''EQ_type'' (normalize_row np rnd row i) = Some (JStr ''STS Crane''))
   \<and> (key = ''STSG0001MNH002'' \<longrightarrow>
      kept_field ''faultlocation'' (normalize_row np rnd row i) = Some (JStr ''HOIST''))
   \<and> (\<not> str_includes (toUpperCase key) ''STS'' \<and> str_includes (toUpperCase key) ''SPR'' \<and>
       spr_match (toUpperCase key) = Some ds \<and> 100 \<le> digits_val ds \<and> digits_val ds \<le> 200 \<longrightarrow>
      normalize_row np rnd row i = Inr None)
   \<and> (\<not> str_includes (toUpperCase key) ''STS'' \<and> str_includes (toUpperCase key) ''SPR'' \<and>
       spr_match (toUpperCase key) = Some ds \<and> (digits_val ds < 100 \<or> 200 < digits_val ds) \<longrightarrow>
      kept_field ''EQ_type'' (normalize_row np rnd row i) = Some (JStr ''Spreader''))"
proof (intro conjI impI)
  assume sts: "str_includes (toUpperCase key) ''STS''"
  then have U: "toUpperCase key \<noteq> []" by (rule includes_ne)
  obtain l where l: "getFaultLocation (field row ''MO_key'') = Inr l"
    using getFaultLocation_str [of key] assms by auto
  from normalize_row_fields [of row "take 5 (toUpperCase key)" "''STS Crane''" l np rnd i]
    sts U l assms
  obtain r where "normalize_row np rnd row i = Inr (Some r)" "field r ''EQ_type'' = JStr ''STS Crane''"
    by (auto simp: extract_STS getEquipmentType_STS take_ne)
  then show "kept_field ''EQ_type'' (normalize_row np rnd row i) = Some (JStr ''STS Crane'')"
    by (simp add: kept_field_def)
next
  assume key: "key = ''STSG0001MNH002''"
  have sts: "str_includes (toUpperCase ''STSG0001MNH002'') ''STS''" by code_simp
  have l: "getFaultLocation (JStr ''STSG0001MNH002'') = Inr ''HOIST''" by code_simp
  from normalize_row_fields [of row "take 5 (toUpperCase key)" "''STS Crane''" "''HOIST''" np rnd i]
    sts l key assms
  obtain r where "normalize_row np rnd row i = Inr (Some r)" "field r ''faultlocation'' = JStr ''HOIST''"
    by (auto simp: extract_STS getEquipmentType_STS upper_STSG)
  then show "kept_field ''faultlocation'' (normalize_row np rnd row i) = Some (JStr ''HOIST'')"
    by (simp add: kept_field_def)
next
  assume h: "\<not> str_includes (toUpperCase key) ''STS'' \<and> str_includes (toUpperCase key) ''SPR'' \<and>
       spr_match (toUpperCase key) = Some ds \<and> 100 \<le> digits_val ds \<and> digits_val ds \<le> 200"
  then have "\<not> isValidSpreaderNumber (toUpperCase key)"
    by (simp add: isValid_iff)
  with h assms have "extract_EQ_name (field row ''MO_key'') = Inr []"
    by (simp add: extract_SPR)
  then show "normalize_row np rnd row i = Inr None" by (rule normalize_row_skip)
next
  assume h: "\<not> str_includes (toUpperCase key) ''STS'' \<and> str_includes (toUpperCase key) ''SPR'' \<and>
       spr_match (toUpperCase key) = Some ds \<and> (digits_val ds < 100 \<or> 200 < digits_val ds)"
  then have v: "isValidSpreaderNumber (toUpperCase key)"
    by (simp add: isValid_iff)
  from h have U: "toUpperCase key \<noteq> []" by (auto dest: includes_ne)
  obtain l where l: "getFaultLocation (field row ''MO_key'') = Inr l"
    using getFaultLocation_str [of key] assms by auto
  from normalize_row_fields [of row "take 6 (toUpperCase key)" "''Spreader''" l np rnd i]
    h v U l assms
  obtain r where "normalize_row np rnd row i = Inr (Some r)" "field r ''EQ_type'' = JStr ''Spreader''"
    by (auto simp: extract_SPR getEquipmentType_SPR take_ne)
  then show "kept_field ''EQ_type'' (normalize_row np rnd row i) = Some (JStr ''Spreader'')"
    by (simp add: kept_field_def)
qed

theorem C5_witness:
  "kept_field ''EQ_type'' (normalize_row np_none rnd_zero [(''MO_key'', JStr ''STSG0001MNH002'')] 0)
     = Some (JStr ''STS Crane'')
   \<and> kept_field ''faultlocation''
       (normalize_row np_none rnd_zero [(''MO_key'', JStr ''STSG0001MNH002'')] 0)
     = Some (JStr ''HOIST'')
   \<and> normalize_row np_none rnd_zero [(''MO_key'', JStr ''SPR150ABC'')] 0 = Inr None
   \<and> kept_field ''EQ_type'' (normalize_row np_none rnd_zero [(''MO_key'', JStr ''SPR050ABC'')] 0)
     = Some (JStr ''Spreader'')"
proof -
  have f1: "field [(''MO_key'', JStr ''STSG0001MNH002'')] ''MO_key'' = JStr ''STSG0001MNH002''"
    by code_simp
  have f2: "field [(''MO_key'', JStr ''SPR150ABC'')] ''MO_key'' = JStr ''SPR150ABC''"
    by code_simp
  have f3: "field [(''MO_key'', JStr ''SPR050ABC'')] ''MO_key'' = JStr ''SPR050ABC''"
    by code_simp
  have h1: "str_includes (toUpperCase ''STSG0001MNH002'') ''STS''" by code_simp
  have h2: "\<not> str_includes (toUpperCase ''SPR150ABC'') ''STS'' \<and>
       str_includes (toUpperCase ''SPR150ABC'') ''SPR'' \<and>
       spr_match (toUpperCase ''SPR150ABC'') = Some ''150'' \<and>
       100 \<le> digits_val ''150'' \<and> digits_val ''150'' \<le> 200"
    by code_simp
  have h3: "\<not> str_includes (toUpperCase ''SPR050ABC'') ''STS'' \<and>
       str_includes (toUpperCase ''SPR050ABC'') ''SPR'' \<and>
       spr_match (toUpperCase ''SPR050ABC'') = Some ''050'' \<and>
       (digits_val ''050'' < 100 \<or> 200 < digits_val ''050'')"
    by code_simp
  note t1 = C5_row_classification [OF f1, where np = np_none and rnd = rnd_zero and i = 0 and ds = "''150''"]
  note t2 = C5_row_classification [OF f2, where np = np_none and rnd = rnd_zero and i = 0 and ds = "''150''"]
  note t3 = C5_row_classification [OF f3, where np = np_none and rnd = rnd_zero and i = 0 and ds = "''050''"]
  from t1 h1
  have a: "kept_field ''EQ_type''
             (normalize_row np_none rnd_zero [(''MO_key'', JStr ''STSG0001MNH002'')] 0)
           = Some (JStr ''STS Crane'')"
    and b: "kept_field ''faultlocation''
             (normalize_row np_none rnd_zero [(''MO_key'', JStr ''STSG0001MNH002'')] 0)
           = Some (JStr ''HOIST'')"
    by blast+
  from t2 h2
  have c: "normalize_row np_none rnd_zero [(''MO_key'', JStr ''SPR150ABC'')] 0 = Inr None"
    by blast
  from t3 h3
  have d: "kept_field ''EQ_type''
             (normalize_row np_none rnd_zero [(''MO_key'', JStr ''SPR050ABC'')] 0)
           = Some (JStr ''Spreader'')"
    by blast
  from a b c d show ?thesis by simp
qed

text \<open>The claim as stated fails for a key that contains both: \<open>STS1SPR150\<close> has the
  number 150 after \<open>SPR\<close>, and its row is kept, as an STS crane.\<close>

theorem C5_counterexample:
  "str_includes (toUpperCase ''STS1SPR150'') ''SPR''
   \<and> spr_match (toUpperCase ''STS1SPR150'') = Some ''150''
   \<and> digits_val ''150'' = 150
   \<and> kept_field ''EQ_type'' (normalize_row np_none rnd_zero [(''MO_key'', JStr ''STS1SPR150'')] 0)
     = Some (JStr ''STS Crane'')"
  by code_simp

section \<open>The orders a workbook run returns\<close>

lemma upper_char_no_lower:
  "x \<in> set (upper_char c) \<Longrightarrow> \<not> (97 \<le> (of_char x :: int) \<and> (of_char x :: int) \<le> 122)"
  by (auto simp: upper_char_def Let_def split: if_splits)

lemma toUpperCase_no_lower:
  "x \<in> set (toUpperCase s) \<Longrightarrow> \<not> (97 \<le> (of_char x :: int) \<and> (of_char x :: int) \<le> 122)"
  by (auto simp: toUpperCase_def dest: upper_char_no_lower)

lemma ci_char_upper:
  assumes "ci_char a u" "\<not> (97 \<le> (of_char a :: int) \<and> (of_char a :: int) \<le> 122)"
    "(of_char u :: int) < 192"
  shows "a = u"
proof -
  have "(of_char (char_of (of_char a - 32 :: int)) :: int) = (of_char a - 32) mod 256"
    by simp
  with assms show ?thesis
    by (auto simp: ci_char_def upper_char_def Let_def split: if_splits)
qed

lemma spr_match_includes:
  "\<forall>x \<in> set s. \<not> (97 \<le> (of_char x :: int) \<and> (of_char x :: int) \<le> 122) \<Longrightarrow>
   spr_match s = Some ds \<Longrightarrow> str_includes s ''SPR''"
proof (induction s)
  case Nil
  then show ?case by simp
next
  case (Cons c cs)
  show ?case
  proof (cases "spr_here (c # cs)")
    case None
    with Cons.prems have "spr_match cs = Some ds" by simp
    with Cons have "str_includes cs ''SPR''" by simp
    then show ?thesis by simp
  next
    case (Some d)
    then obtain b e rest where s: "c # cs = c # b # e # rest"
      and m: "ci_char c CHR ''S''" "ci_char b CHR ''P''" "ci_char e CHR ''R''"
      by (auto simp: spr_here_def split: list.splits if_splits)
    from Cons.prems(1) s have nl: "\<not> (97 \<le> (of_char c :: int) \<and> (of_char c :: int) \<le> 122)"
      "\<not> (97 \<le> (of_char b :: int) \<and> (of_char b :: int) \<le> 122)"
      "\<not> (97 \<le> (of_char e :: int) \<and> (of_char e :: int) \<le> 122)"
      by auto
    have "c = CHR ''S''" using m(1) nl(1) by (rule ci_char_upper) simp
    moreover have "b = CHR ''P''" using m(2) nl(2) by (rule ci_char_upper) simp
    moreover have "e = CHR ''R''" using m(3) nl(3) by (rule ci_char_upper) simp
    ultimately show ?thesis using s by simp
  qed
qed

lemma isValid_includes_SPR:
  "isValidSpreaderNumber (toUpperCase key) \<Longrightarrow> str_includes (toUpperCase key) ''SPR''"
  by (auto simp: isValidSpreaderNumber_def split: option.splits
      intro: spr_match_includes dest: toUpperCase_no_lower)

lemma non_null_map_Some: "non_null (map Some xs) = xs"
  by (induction xs) (simp_all add: non_null_def)

lemma in_non_null: "x \<in> set (non_null xs) \<longleftrightarrow> Some x \<in> set xs"
  by (induction xs) (auto simp: non_null_def)

lemma map_rows_Some:
  "map_rows f rs k = Inr xs \<Longrightarrow> Some x \<in> set xs \<Longrightarrow> \<exists>r j. r \<in> set rs \<and> f r j = Inr (Some x)"
proof (induction rs arbitrary: k xs)
  case Nil
  then show ?case by simp
next
  case (Cons r rs)
  from Cons.prems(1) obtain y ys where y: "f r k = Inr y" and ys: "map_rows f rs (Suc k) = Inr ys"
    and xs: "xs = y # ys"
    by (auto split: sum.splits)
  show ?case
  proof (cases "y = Some x")
    case True
    with y show ?thesis by auto
  next
    case False
    with Cons.prems(2) xs have "Some x \<in> set ys" by simp
    from Cons.IH [OF ys this] show ?thesis by auto
  qed
qed

lemma extract_EQ_name_Some:
  assumes "extract_EQ_name v = Inr n" "n \<noteq> []"
  shows "\<exists>key. v = JStr key \<and> key \<noteq> [] \<and>
           (str_includes (toUpperCase key) ''STS'' \<and> n = take 5 (toUpperCase key)
            \<or> \<not> str_includes (toUpperCase key) ''STS'' \<and> str_includes (toUpperCase key) ''SPR''
              \<and> isValidSpreaderNumber (toUpperCase key) \<and> n = take 6 (toUpperCase key))"
proof -
  from assms have t: "truthy v" by (auto simp: extract_EQ_name_def split: if_splits)
  with assms obtain key where v: "v = JStr key"
    by (cases v) (auto simp: extract_EQ_name_def not_a_function_def)
  from t v have k: "key \<noteq> []" by (simp add: truthy_def)
  from assms v t show ?thesis
    using k isValid_includes_SPR [of key]
    by (auto simp: extract_EQ_name_def Let_def split: if_splits)
qed

lemma normalize_row_Some:
  assumes "normalize_row np rnd row i = Inr (Some r)"
  shows "\<exists>key. field row ''MO_key'' = JStr key \<and> key \<noteq> [] \<and>
           field r ''MO_key'' = JStr key \<and>
           (str_includes (toUpperCase key) ''STS'' \<and> field r ''EQ_type'' = JStr ''STS Crane''
            \<or> \<not> str_includes (toUpperCase key) ''STS'' \<and> str_includes (toUpperCase key) ''SPR''
              \<and> isValidSpreaderNumber (toUpperCase key) \<and> field r ''EQ_type'' = JStr ''Spreader'')"
proof -
  from assms obtain n where n: "extract_EQ_name (field row ''MO_key'') = Inr n" and ne: "n \<noteq> []"
    by (auto simp: normalize_row_def Let_def split: sum.splits if_splits)
  from extract_EQ_name_Some [OF n ne] obtain key where key: "field row ''MO_key'' = JStr key"
    and k: "key \<noteq> []"
    and d: "str_includes (toUpperCase key) ''STS''
            \<or> \<not> str_includes (toUpperCase key) ''STS'' \<and> str_includes (toUpperCase key) ''SPR''
              \<and> isValidSpreaderNumber (toUpperCase key)"
    by auto
  obtain l where l: "getFaultLocation (field row ''MO_key'') = Inr l"
    using getFaultLocation_str [of key] key by auto
  from d obtain t where t: "getEquipmentType (field row ''MO_key'') = Inr t"
    and tv: "t = (if str_includes (toUpperCase key) ''STS'' then ''STS Crane'' else ''Spreader'')"
    using key by (auto simp: getEquipmentType_STS getEquipmentType_SPR)
  from normalize_row_fields [OF n ne t l, of np rnd i] assms
  have "field r ''EQ_type'' = JStr t" "field r ''MO_key'' = JStr key"
    using key k by (auto simp: js_or_def truthy_def)
  with key k d tv show ?thesis by auto
qed

lemma with_status_MO_key: "field (with_status item) ''MO_key'' = field item ''MO_key''"
  by (simp add: with_status_def Let_def field_update)

lemma with_status_EQ_type: "field (with_status item) ''EQ_type'' = field item ''EQ_type''"
  by (simp add: with_status_def Let_def field_update)

lemma enrich_item_fields:
  assumes "field item ''MO_key'' = JStr key" "key \<noteq> []"
  shows "field (enrich_item item) ''MO_key'' = JStr key"
    and "field (enrich_item item) ''EQ_type'' = field item ''EQ_type''"
    and "field (enrich_item item) ''EQ_name''
         = JStr (if str_includes (toUpperCase key) ''STS'' then take 5 (toUpperCase key)
                 else if str_includes (toUpperCase key) ''SPR'' then take 6 (toUpperCase key)
                 else ''Unknown'')"
  using assms
  by (simp_all add: enrich_item_def Let_def with_status_MO_key with_status_EQ_type
      truthy_def field_update)

lemma normalize_row_rnd: "normalize_row np rnd row i = normalize_row np rnd' row i"
proof (cases "truthy (field row ''MO_key'')")
  case True
  then have "\<And>x. js_or (field row ''MO_key'') x = field row ''MO_key''"
    by (simp add: js_or_def)
  then show ?thesis by (simp add: normalize_row_def Let_def split: sum.splits)
next
  case False
  then have "extract_EQ_name (field row ''MO_key'') = Inr []"
    by (simp add: extract_EQ_name_def)
  then show ?thesis by (simp add: normalize_row_skip)
qed

lemma processExcelWorkbook_data:
  assumes "processExcelWorkbook np rnd wbo = Inr res"
  shows "\<exists>wb rows. wbo = Some wb \<and>
           map_rows (normalize_row np rnd) (combinedData wb) 0 = Inr rows \<and>
           data res = map enrich_item (non_null rows)"
proof -
  from assms obtain wb where wb: "wbo = Some wb"
    by (cases wbo) (auto simp: processExcelWorkbook_def)
  from assms wb obtain rows where rows: "map_rows (normalize_row np rnd) (combinedData wb) 0 = Inr rows"
    and pd: "processData np (ArgArray (map Some (non_null rows))) = Inr res"
    by (auto simp: processExcelWorkbook_def Let_def split: sum.splits if_splits)
  from pd have "data res = map enrich_item (non_null rows)"
    by (auto simp: processData_def Let_def non_null_map_Some split: if_splits)
  with wb rows show ?thesis by auto
qed

text \<open>
  Claim C10, as the code has it. Every work order in the data \<open>processExcelWorkbook\<close>
  returns has a string key that (upper-cased) contains \<open>STS\<close>, or contains \<open>SPR\<close> with a
  spreader number below 100 or above 200. Its \<open>EQ_name\<close> is the non-empty prefix of the
  upper-cased key of at most 5 characters (STS) or at most 6 (spreader): exactly 5 or 6
  only when the key is that long. Its \<open>EQ_type\<close> is \<open>STS Crane\<close> or \<open>Spreader\<close>. The random
  placeholder for a missing key is never used: the run is the same for every random
  source.
\<close>

theorem C10_returned_orders:
  "(processExcelWorkbook np rnd wbo = Inr res \<and> wo \<in> set (data res) \<longrightarrow>
      (\<exists>key. field wo ''MO_key'' = JStr key \<and>
         (str_includes (toUpperCase key) ''STS''
          \<or> str_includes (toUpperCase key) ''SPR'' \<and> isValidSpreaderNumber (toUpperCase key)) \<and>
         field wo ''EQ_name''
           = JStr (take (if str_includes (toUpperCase key) ''STS'' then 5 else 6)
                     (toUpperCase key)) \<and>
         take (if str_includes (toUpperCase key) ''STS'' then 5 else 6) (toUpperCase key) \<noteq> [] \<and>
         field wo ''EQ_type''
           = JStr (if str_includes (toUpperCase key) ''STS'' then ''STS Crane''
                   else ''Spreader'')))
   \<and> processExcelWorkbook np rnd' wbo = processExcelWorkbook np rnd wbo"
proof (intro conjI impI)
  assume h: "processExcelWorkbook np rnd wbo = Inr res \<and> wo \<in> set (data res)"
  from processExcelWorkbook_data [of np rnd wbo res] h obtain wb rows where
    rows: "map_rows (normalize_row np rnd) (combinedData wb) 0 = Inr rows"
    and d: "data res = map enrich_item (non_null rows)"
    by auto
  from h d obtain r where r: "Some r \<in> set rows" and wo: "wo = enrich_item r"
    by (auto simp: in_non_null)
  from map_rows_Some [OF rows r] obtain row j where
    "normalize_row np rnd row j = Inr (Some r)" by auto
  from normalize_row_Some [OF this] obtain key where
    key: "field r ''MO_key'' = JStr key" and k: "key \<noteq> []"
    and c: "str_includes (toUpperCase key) ''STS'' \<and> field r ''EQ_type'' = JStr ''STS Crane''
            \<or> \<not> str_includes (toUpperCase key) ''STS'' \<and> str_includes (toUpperCase key) ''SPR''
              \<and> isValidSpreaderNumber (toUpperCase key) \<and> field r ''EQ_type'' = JStr ''Spreader''"
    by auto
  from c have U: "toUpperCase key \<noteq> []" by (auto dest: includes_ne)
  note e = enrich_item_fields [OF key k]
  from c U e wo
  show "\<exists>key. field wo ''MO_key'' = JStr key \<and>
         (str_includes (toUpperCase key) ''STS''
          \<or> str_includes (toUpperCase key) ''SPR'' \<and> isValidSpreaderNumber (toUpperCase key)) \<and>
         field wo ''EQ_name''
           = JStr (take (if str_includes (toUpperCase key) ''STS'' then 5 else 6)
                     (toUpperCase key)) \<and>
         take (if str_includes (toUpperCase key) ''STS'' then 5 else 6) (toUpperCase key) \<noteq> [] \<and>
         field wo ''EQ_type''
           = JStr (if str_includes (toUpperCase key) ''STS'' then ''STS Crane''
                   else ''Spreader'')"
    by (intro exI [of _ key]) (auto simp: take_ne)
next
  have eq: "normalize_row np rnd' = normalize_row np rnd"
    by (intro ext) (rule normalize_row_rnd)
  show "processExcelWorkbook np rnd' wbo = processExcelWorkbook np rnd wbo"
    unfolding processExcelWorkbook_def eq by (rule refl)
qed

theorem C10_witness:
  "(\<exists>key. field short_key_order ''MO_key'' = JStr key \<and>
         (str_includes (toUpperCase key) ''STS''
          \<or> str_includes (toUpperCase key) ''SPR'' \<and> isValidSpreaderNumber (toUpperCase key)) \<and>
         field short_key_order ''EQ_name''
           = JStr (take (if str_includes (toUpperCase key) ''STS'' then 5 else 6)
                     (toUpperCase key)) \<and>
         take (if str_includes (toUpperCase key) ''STS'' then 5 else 6) (toUpperCase key) \<noteq> [] \<and>
         field short_key_order ''EQ_type''
           = JStr (if str_includes (toUpperCase key) ''STS'' then ''STS Crane''
                   else ''Spreader''))
   \<and> processExcelWorkbook np_none rnd_nines (Some wb_short_key)
     = processExcelWorkbook np_none rnd_zero (Some wb_short_key)"
proof -
  have h: "processExcelWorkbook np_none rnd_zero (Some wb_short_key) = Inr short_key_result
           \<and> short_key_order \<in> set (data short_key_result)"
    by code_simp
  from C10_returned_orders [of np_none rnd_zero "Some wb_short_key" short_key_result
         short_key_order rnd_nines] h
  show ?thesis by blast
qed

text \<open>The claim as stated fails for a short key: the row with the key \<open>STS\<close> is returned
  with the \<open>EQ_name\<close> \<open>STS\<close>, of three characters.\<close>

theorem C10_counterexample:
  "result_fields ''MO_key'' (processExcelWorkbook np_none rnd_zero (Some wb_short_key))
     = [JStr ''STS'']
   \<and> result_fields ''EQ_name'' (processExcelWorkbook np_none rnd_zero (Some wb_short_key))
     = [JStr ''STS'']
   \<and> length ''STS'' = 3"
  by code_simp

section \<open>The calendar\<close>

text \<open>
  \<open>YearFromDay\<close> is the year of the day: the day lies in it, at a position below the
  length of the year. So month and day of the month are in range, and \<open>MakeDay\<close> of the
  three fields is the day again.
\<close>

lemma DayFromYear_digits:
  fixes a b c e :: int
  assumes b: "0 \<le> b" "b \<le> 3" and c: "0 \<le> c" "c \<le> 24" and e: "0 \<le> e" "e \<le> 3"
  shows "DayFromYear (400 * a + 100 * b + 4 * c + e + 1)
         = 146097 * a + 36524 * b + 1461 * c + 365 * e - 719162"
proof -
  define Y where "Y = 400 * a + 100 * b + 4 * c + e"
  have "Y - 1968 = 4 * (100 * a + 25 * b + c - 492) + e" by (simp add: Y_def)
  then have "(Y - 1968) div 4 = (100 * a + 25 * b + c - 492) + e div 4"
    by simp
  with e have d4: "(Y - 1968) div 4 = 100 * a + 25 * b + c - 492"
    by (simp add: div_pos_pos_trivial)
  have "Y - 1900 = 100 * (4 * a + b - 19) + (4 * c + e)" by (simp add: Y_def)
  then have "(Y - 1900) div 100 = (4 * a + b - 19) + (4 * c + e) div 100"
    by simp
  with c e have d100: "(Y - 1900) div 100 = 4 * a + b - 19"
    by (simp add: div_pos_pos_trivial)
  have "Y - 1600 = 400 * (a - 4) + (100 * b + 4 * c + e)" by (simp add: Y_def)
  then have "(Y - 1600) div 400 = (a - 4) + (100 * b + 4 * c + e) div 400"
    by simp
  with b c e have d400: "(Y - 1600) div 400 = a - 4"
    by (simp add: div_pos_pos_trivial)
  have "DayFromYear (Y + 1)
        = 365 * (Y - 1969) + (Y - 1968) div 4 - (Y - 1900) div 100 + (Y - 1600) div 400"
    by (simp add: DayFromYear_def)
  also have "\<dots> = 146097 * a + 36524 * b + 1461 * c + 365 * e - 719162"
    unfolding d4 d100 d400 by (simp add: Y_def)
  finally show ?thesis by (simp add: Y_def)
qed

lemma mod_eq_0_top:
  fixes t k :: int
  shows "0 < t \<Longrightarrow> t \<le> k \<Longrightarrow> (t mod k = 0) = (t = k)"
  by (cases "t = k") (simp_all add: mod_pos_pos_trivial)

lemma InLeapYear_digits:
  fixes a b c e :: int
  assumes b: "0 \<le> b" "b \<le> 3" and c: "0 \<le> c" "c \<le> 24" and e: "0 \<le> e" "e \<le> 3"
  shows "InLeapYear (400 * a + 100 * b + 4 * c + e + 1) = (e = 3 \<and> (c \<noteq> 24 \<or> b = 3))"
proof -
  define y where "y = 400 * a + 100 * b + 4 * c + e + 1"
  have "y = 4 * (100 * a + 25 * b + c) + (e + 1)" by (simp add: y_def)
  then have "y mod 4 = (e + 1) mod 4" by (simp only: mod_mult_self4)
  with e have m4: "y mod 4 = 0 \<longleftrightarrow> e = 3" by presburger
  have "y = 100 * (4 * a + b) + (4 * c + e + 1)" by (simp add: y_def)
  then have "y mod 100 = (4 * c + e + 1) mod 100" by (simp only: mod_mult_self4)
  moreover have "(4 * c + e + 1) mod 100 = 0 \<longleftrightarrow> 4 * c + e + 1 = 100"
    using c e by (intro mod_eq_0_top) simp_all
  moreover have "4 * c + e + 1 = 100 \<longleftrightarrow> c = 24 \<and> e = 3" using c e by presburger
  ultimately have m100: "y mod 100 = 0 \<longleftrightarrow> c = 24 \<and> e = 3" by simp
  have "y = 400 * a + (100 * b + 4 * c + e + 1)" by (simp add: y_def)
  then have "y mod 400 = (100 * b + 4 * c + e + 1) mod 400" by (simp only: mod_mult_self4)
  moreover have "(100 * b + 4 * c + e + 1) mod 400 = 0 \<longleftrightarrow> 100 * b + 4 * c + e + 1 = 400"
    using b c e by (intro mod_eq_0_top) simp_all
  moreover have "100 * b + 4 * c + e + 1 = 400 \<longleftrightarrow> b = 3 \<and> c = 24 \<and> e = 3"
    using b c e by presburger
  ultimately have m400: "y mod 400 = 0 \<longleftrightarrow> b = 3 \<and> c = 24 \<and> e = 3" by simp
  show ?thesis
    unfolding InLeapYear_def y_def [symmetric] m4 m100 m400 by auto
qed

lemma YearFromDay_decomp:
  obtains a b c e w :: int where
    "0 \<le> b" "b \<le> 3" "0 \<le> c" "c \<le> 24" "0 \<le> e" "e \<le> 3" "0 \<le> w"
    "YearFromDay d = 400 * a + 100 * b + 4 * c + e + 1"
    "d + 719162 = 146097 * a + 36524 * b + 1461 * c + 365 * e + w"
    "w < 365 \<or> (w = 365 \<and> e = 3 \<and> (c \<noteq> 24 \<or> b = 3))"
proof -
  define n where "n = d + 719162"
  define a where "a = n div 146097"
  define r where "r = n mod 146097"
  define q where "q = r div 36524"
  define m where "m = r mod 36524"
  define b where "b = min 3 q"
  define r1 where "r1 = r - b * 36524"
  define c where "c = r1 div 1461"
  define r4 where "r4 = r1 mod 1461"
  define q' where "q' = r4 div 365"
  define m' where "m' = r4 mod 365"
  define e where "e = min 3 q'"
  define w where "w = r4 - 365 * e"
  have n: "n = 146097 * a + r" by (simp add: a_def r_def)
  have r: "0 \<le> r" "r < 146097" by (simp_all add: r_def)
  have rq: "r = 36524 * q + m" by (simp add: q_def m_def)
  have m: "0 \<le> m" "m < 36524" by (simp_all add: m_def)
  have r1c: "r1 = 1461 * c + r4" by (simp add: c_def r4_def)
  have r4: "0 \<le> r4" "r4 < 1461" by (simp_all add: r4_def)
  have r4q: "r4 = 365 * q' + m'" by (simp add: q'_def m'_def)
  have m': "0 \<le> m'" "m' < 365" by (simp_all add: m'_def)
  have q0: "0 \<le> q" "q \<le> 4" using r rq m by linarith+
  have b: "0 \<le> b" "b \<le> 3" using q0 by (simp_all add: b_def)
  have r1: "0 \<le> r1" "r1 \<le> 36524" "r1 = 36524 \<longrightarrow> b = 3"
    using r rq m q0 by (auto simp: r1_def b_def min_def)
  have c: "0 \<le> c" "c \<le> 24" using r1 r1c r4 by linarith+
  have q'0: "0 \<le> q'" "q' \<le> 4" using r4 r4q m' by linarith+
  have e: "0 \<le> e" "e \<le> 3" using q'0 by (simp_all add: e_def)
  have w: "0 \<le> w" "w < 365 \<or> (w = 365 \<and> e = 3 \<and> r4 = 1460)"
    using r4 r4q m' q'0 by (auto simp: w_def e_def min_def)
  have cb: "r4 = 1460 \<longrightarrow> c \<noteq> 24 \<or> b = 3" using r1 r1c by auto
  have y: "YearFromDay d = 400 * a + 100 * b + 4 * c + e + 1"
    by (simp add: YearFromDay_def Let_def n_def a_def r_def q_def b_def r1_def c_def r4_def
        q'_def e_def)
  have dn: "d + 719162 = 146097 * a + 36524 * b + 1461 * c + 365 * e + w"
    using n r1c by (simp add: n_def r1_def w_def)
  from b c e w cb y dn show ?thesis by (intro that [of b c e w a]) auto
qed

lemma DayWithinYear_range:
  "0 \<le> DayWithinYear d \<and>
   DayWithinYear d < 365 + (if InLeapYear (YearFromDay d) then 1 else 0)"
proof -
  obtain a b c e w :: int where
    h: "0 \<le> b" "b \<le> 3" "0 \<le> c" "c \<le> 24" "0 \<le> e" "e \<le> 3" "0 \<le> w"
    and y: "YearFromDay d = 400 * a + 100 * b + 4 * c + e + 1"
    and dn: "d + 719162 = 146097 * a + 36524 * b + 1461 * c + 365 * e + w"
    and w: "w < 365 \<or> (w = 365 \<and> e = 3 \<and> (c \<noteq> 24 \<or> b = 3))"
    by (rule YearFromDay_decomp)
  have "DayFromYear (YearFromDay d) = 146097 * a + 36524 * b + 1461 * c + 365 * e - 719162"
    unfolding y using h by (intro DayFromYear_digits) auto
  with dn have dw: "DayWithinYear d = w" by (simp add: DayWithinYear_def)
  have "InLeapYear (YearFromDay d) = (e = 3 \<and> (c \<noteq> 24 \<or> b = 3))"
    unfolding y using h by (intro InLeapYear_digits) auto
  with dw h w show ?thesis by auto
qed




lemma int_div_step:
  fixes x k :: int
  assumes "0 < k"
  shows "(x + 1) div k = x div k + (if (x + 1) mod k = 0 then 1 else 0)"
proof -
  define q where "q = x div k"
  define r where "r = x mod k"
  have xe: "x + 1 = k * q + (r + 1)" by (simp add: q_def r_def)
  have r: "0 \<le> r" "r < k" using assms by (simp_all add: r_def)
  have A: "(k * q + (r + 1)) div k = q + (r + 1) div k" using assms by simp
  have B: "(k * q + (r + 1)) mod k = (r + 1) mod k" by simp
  have C: "(r + 1) div k = (if (r + 1) mod k = 0 then 1 else 0)"
  proof (cases "r + 1 = k")
    case True
    with assms show ?thesis by simp
  next
    case False
    with r have "r + 1 < k" by simp
    with r show ?thesis by (simp add: div_pos_pos_trivial mod_pos_pos_trivial)
  qed
  show ?thesis unfolding xe A B C q_def [symmetric] by (rule refl)
qed

lemma mod_shift:
  fixes y c k :: int
  shows "(y - c * k) mod k = y mod k"
proof -
  have "y - c * k = y + (- c) * k" by simp
  then show ?thesis by (simp only: mod_mult_self1)
qed

lemma mod_0_coarser:
  fixes y j k :: int
  assumes "j dvd k" "y mod k = 0"
  shows "y mod j = 0"
proof -
  from assms(2) have "k dvd y" by (simp add: dvd_eq_mod_eq_0)
  with assms(1) have "j dvd y" by (rule dvd_trans)
  then show ?thesis by (simp add: dvd_eq_mod_eq_0)
qed

lemma DayFromYear_next:
  "DayFromYear (y + 1) = DayFromYear y + 365 + (if InLeapYear y then 1 else 0)"
proof -
  have m4: "(y - 1969 + 1) mod 4 = y mod 4"
    using mod_shift [of y 492 4] by simp
  have m100: "(y - 1901 + 1) mod 100 = y mod 100"
    using mod_shift [of y 19 100] by simp
  have m400: "(y - 1601 + 1) mod 400 = y mod 400"
    using mod_shift [of y 4 400] by simp
  have d4: "(y - 1969 + 1) div 4 = (y - 1969) div 4 + (if y mod 4 = 0 then 1 else 0)"
    using int_div_step [of 4 "y - 1969"] unfolding m4 by simp
  have d100: "(y - 1901 + 1) div 100 = (y - 1901) div 100 + (if y mod 100 = 0 then 1 else 0)"
    using int_div_step [of 100 "y - 1901"] unfolding m100 by simp
  have d400: "(y - 1601 + 1) div 400 = (y - 1601) div 400 + (if y mod 400 = 0 then 1 else 0)"
    using int_div_step [of 400 "y - 1601"] unfolding m400 by simp
  have c1: "y mod 400 = 0 \<Longrightarrow> y mod 100 = 0"
    by (rule mod_0_coarser [of 100 400]) simp_all
  have c2: "y mod 100 = 0 \<Longrightarrow> y mod 4 = 0"
    by (rule mod_0_coarser [of 4 100]) simp_all
  have e: "DayFromYear (y + 1)
        = 365 * (y - 1969) + (y - 1969 + 1) div 4 - (y - 1901 + 1) div 100
          + (y - 1601 + 1) div 400"
    by (simp add: DayFromYear_def)
  show ?thesis
  proof (cases "y mod 4 = 0")
    case False
    with c1 c2 have "y mod 100 \<noteq> 0" "y mod 400 \<noteq> 0" by auto
    with False show ?thesis unfolding e d4 d100 d400 by (simp add: DayFromYear_def InLeapYear_def)
  next
    case 4: True
    show ?thesis
    proof (cases "y mod 100 = 0")
      case False
      with c1 have "y mod 400 \<noteq> 0" by auto
      with 4 False show ?thesis
        unfolding e d4 d100 d400 by (simp add: DayFromYear_def InLeapYear_def)
    next
      case True
      with 4 show ?thesis
        unfolding e d4 d100 d400 by (simp add: DayFromYear_def InLeapYear_def)
    qed
  qed
qed

text \<open>The day lies between the first day of its year and the first day of the next:
  \<open>YearFromDay\<close> is the \<open>YearFromTime\<close> of the language standard.\<close>

lemma YearFromDay_bracket:
  "DayFromYear (YearFromDay d) \<le> d \<and> d < DayFromYear (YearFromDay d + 1)"
  using DayWithinYear_range [of d] DayFromYear_next [of "YearFromDay d"]
  by (simp add: DayWithinYear_def)

section \<open>Serial dates\<close>

text \<open>On a host at UTC the functions of a zone are the ones without a zone.\<close>

lemma new_Date_local_utc: "new_Date_local zone_utc = new_Date_ymd"
  by (intro ext)
    (simp add: new_Date_local_def new_Date_ymd_def Date_UTC_def UTC_of_def zone_utc_def)

lemma local_day_of_utc: "local_day_of zone_utc = day_of"
  by (intro ext) (simp add: local_day_of_def day_of_def LocalTime_def zone_utc_def)

lemma getters_local_utc:
  "getDate_local zone_utc = getDate" "getMonth_local zone_utc = getMonth"
  "getFullYear_local zone_utc = getFullYear"
  by (intro ext, simp add: getDate_local_def getMonth_local_def getFullYear_local_def
      getDate_def getMonth_def getFullYear_def local_day_of_utc)+

lemma french_date_local_utc: "french_date_local zone_utc = french_date"
  unfolding french_date_local_def french_date_def new_Date_local_utc by (rule refl)

lemma parseFrenchDate_local_utc: "parseFrenchDate_local zone_utc = parseFrenchDate"
  unfolding parseFrenchDate_local_def parseFrenchDate_def excelEpoch_local_def excelEpoch_def
    new_Date_local_utc french_date_local_utc by (rule refl)

lemma formatToFrenchDate_local_utc: "formatToFrenchDate_local zone_utc = formatToFrenchDate"
  unfolding formatToFrenchDate_local_def formatToFrenchDate_def getters_local_utc
  by (rule refl)









section \<open>The average processing time\<close>

text \<open>
  What \<open>processData\<close> computes: the mean of the processing times of the closed orders
  whose two dates parse, whatever their sign, and 0 when there is none. A closed order
  with a date that does not parse leaves the mean as it is: it is not counted as zero.
\<close>

lemma non_null_append: "non_null (xs @ ys) = non_null xs @ non_null ys"
  by (simp add: non_null_def)

lemma avg_processing_time_of_alt:
  "avg_processing_time_of np orders
   = (if validProcessingTimes np orders = [] then 0
      else foldl (+) 0 (validProcessingTimes np orders)
           / of_nat (length (validProcessingTimes np orders)))"
  by (auto simp: avg_processing_time_of_def Let_def validProcessingTimes_def non_null_def)

lemma validProcessingTimes_skip:
  "processing_time np item = None \<Longrightarrow>
   validProcessingTimes np (xs @ item # ys) = validProcessingTimes np (xs @ ys)"
  by (simp add: validProcessingTimes_def closed_wo_def non_null_append) (simp add: non_null_def)

lemma avg_skips_unparsed:
  "processing_time np item = None \<Longrightarrow>
   avg_processing_time_of np (xs @ item # ys) = avg_processing_time_of np (xs @ ys)"
  by (simp add: avg_processing_time_of_alt validProcessingTimes_skip)

lemma avg_counts_any_sign:
  "truthy (field item ''Jobexec_dt'') \<Longrightarrow> processing_time np item = Some t \<Longrightarrow>
   validProcessingTimes np (item # orders) = t # validProcessingTimes np orders"
  by (simp add: validProcessingTimes_def closed_wo_def non_null_def)

lemma avg_three_orders_and_unparsed:
  "processing_time np_none order_no_exec_date = None
   \<and> validProcessingTimes np_none
        [order_one_day, order_three_days, order_no_exec_date, order_five_days] = [1, 3, 5]
   \<and> avg_processing_time_of np_none
        [order_one_day, order_three_days, order_no_exec_date, order_five_days] = 3"
  by code_simp


text \<open>
  Claim C1. The claim excludes a closed order whose execution date lies before its order
  date from the mean; \<open>processData\<close> does not. On two closed orders with processing times
  of -2 days and 4 days, both with dates that parse, it returns the mean of both, 1,
  where the claim's mean over the non-negative times is 4. (The view renderers of the
  same script drop such times with \<open>filter(time => time > 0)\<close>.)
\<close>

theorem C1_negative_time_in_mean:
  "processing_time np_none order_executed_early = Some (- 2)
   \<and> processing_time np_none order_four_days = Some 4
   \<and> result_avg (processData np_none
        (ArgArray [Some order_executed_early, Some order_four_days])) = Some 1"
  by code_simp

theorem C1_witness:
  "result_avg (processData np_none
     (ArgArray [Some order_executed_early, Some order_four_days])) \<noteq> Some 4"
  using C1_negative_time_in_mean by simp

section \<open>Week buckets\<close>

text \<open>
  Claim C2. Monday 30 December 2024 and Sunday 5 January 2025 lie in the same ISO week,
  week 1 of 2025. \<open>formatDateForChart\<close> gives them the week number 1 but the calendar year
  of each date: the buckets \<open>2024-W01\<close> and \<open>2025-W01\<close> differ, and the first is also the
  bucket of 1 January 2024. The copy with the month gives \<open>2024-12-W01\<close> and
  \<open>2025-01-W01\<close>.
\<close>

theorem C2_week_across_new_year:
  "parseFrenchDate np_none (JStr ''30/12/2024'') = Some (TimeValue (20087 * msPerDay))
   \<and> parseFrenchDate np_none (JStr ''05/01/2025'') = Some (TimeValue ((20087 + 6) * msPerDay))
   \<and> getDay (TimeValue (20087 * msPerDay)) = Some 1
   \<and> getWeekNumber (TimeValue (20087 * msPerDay)) = Some 1
   \<and> getWeekNumber (TimeValue ((20087 + 6) * msPerDay)) = Some 1
   \<and> formatDateForChart np_none (JStr ''30/12/2024'') = ''2024-W01''
   \<and> formatDateForChart np_none (JStr ''05/01/2025'') = ''2025-W01''
   \<and> formatDateForChart np_none (JStr ''01/01/2024'') = ''2024-W01''
   \<and> formatDateForChart_p2 np_none (JStr ''30/12/2024'') = ''2024-12-W01''
   \<and> formatDateForChart_p2 np_none (JStr ''05/01/2025'') = ''2025-01-W01''"
  by code_simp

theorem C2_witness:
  "formatDateForChart np_none (JStr ''30/12/2024'')
   \<noteq> formatDateForChart np_none (JStr ''05/01/2025'')"
  using C2_week_across_new_year by simp

end
